theory Spec2Isabelle
  imports Complex_Main "HOL-Library.Sublist"
begin

section \<open>The ImageCropper engine of quickcrop\<close>

text \<open>
  A shallow embedding of the class \<open>ImageCropper\<close> (the image cropper module of the
  repository): the crop frame geometry, the view state (scale and offset), the pointer,
  wheel and touch handlers, and the extraction of the cropped image.

  JavaScript numbers are modelled as real numbers: arithmetic is exact, and the theorems
  below are statements of real arithmetic. A quotient whose divisor is zero is
  \<open>Infinity\<close> or \<open>NaN\<close> in JavaScript and \<open>0\<close> in HOL, so a theorem whose conclusion
  depends on the value of a quotient carries the hypothesis that the divisor is not zero.

  The DOM is the environment. What the engine reads from it comes in as an argument (the
  layout of the container, the decoded size of the image, the behaviour of the canvas);
  what it writes to it is kept where a claim needs it (the transform of the image
  element) and left out otherwise (style sheets, the clip path of the overlay, the
  registration of event listeners). A handler is a transition of the engine state, applied
  by the host when the event fires.
\<close>

subsection \<open>Data model\<close>

text \<open>The options of the constructor, after merging with the defaults.\<close>

record cropper_options =
  aspectRatio :: real
  minZoom :: real
  maxZoom :: real
  zoomStep :: real

text \<open>
  The image element: its natural size (0 until the image is decoded) and the last
  transform written to its style, \<open>translate(x px, y px) scale(k)\<close> as \<open>(x, y, k)\<close>.
\<close>

record image_el =
  naturalWidth :: real
  naturalHeight :: real
  transform :: "(real \<times> real \<times> real) option"

text \<open>The cached bounding rectangle of the container; the engine reads \<open>left\<close> and \<open>top\<close>.\<close>

record dom_rect =
  rect_left :: real
  rect_top :: real

text \<open>The frame rectangle \<open>{left, top, width, height, right, bottom}\<close>.\<close>

record frame_rect =
  frame_left :: real
  frame_top :: real
  frame_width :: real
  frame_height :: real
  frame_right :: real
  frame_bottom :: real

text \<open>The drag session \<open>{x, y, offsetX, offsetY}\<close>.\<close>

record drag_start =
  drag_x :: real
  drag_y :: real
  drag_offsetX :: real
  drag_offsetY :: real

text \<open>
  The state of one \<open>ImageCropper\<close>. \<open>mounted\<close> says that the references \<open>container\<close>,
  \<open>overlay\<close> and \<open>cropFrame\<close> are not null: the constructor sets the three and
  \<open>destroy\<close> nulls the three.
\<close>

record cropper =
  options :: cropper_options
  imageEl :: "image_el option"
  imageLoaded :: bool
  scale :: real
  offsetX :: real
  offsetY :: real
  containerRect :: "dom_rect option"
  frameRect :: "frame_rect option"
  dragStart :: "drag_start option"
  mounted :: bool

text \<open>What the DOM reports of the container when the engine asks.\<close>

record container_el =
  clientWidth :: real
  clientHeight :: real
  boundingClientRect :: dom_rect

record mouse_event =
  m_button :: int
  m_clientX :: real
  m_clientY :: real

record wheel_event =
  w_deltaY :: real
  w_clientX :: real
  w_clientY :: real

record touch =
  t_clientX :: real
  t_clientY :: real

record touch_event =
  touches :: "touch list"

record js_file =
  file_type :: string

datatype error = TypeError | InvalidFileType | LoadFailed

subsection \<open>Frame geometry\<close>

text \<open>
  The frame computed by \<open>updateCropFrame\<close> from the client size of the container and
  the aspect ratio (the arithmetic between the zero-size guard and the assignment of
  \<open>frameRect\<close>).
\<close>

definition cropFrameRect :: "real \<Rightarrow> real \<Rightarrow> real \<Rightarrow> frame_rect" where
  "cropFrameRect containerWidth containerHeight ratio =
     (let availableWidth = containerWidth * 0.9;
          availableHeight = containerHeight * 0.9;
          (frameWidth0, frameHeight0) =
            (if availableWidth / availableHeight > ratio
             then (availableHeight * ratio, availableHeight)
             else (availableWidth, availableWidth / ratio));
          frameWidth = max 0 frameWidth0;
          frameHeight = max 0 frameHeight0;
          left = (containerWidth - frameWidth) / 2;
          top = (containerHeight - frameHeight) / 2;
          right = left + frameWidth;
          bottom = top + frameHeight
      in \<lparr>frame_left = left, frame_top = top, frame_width = frameWidth,
          frame_height = frameHeight, frame_right = right, frame_bottom = bottom\<rparr>)"

definition updateCropFrame :: "container_el \<Rightarrow> cropper \<Rightarrow> cropper" where
  "updateCropFrame c s =
     (if \<not> mounted s then s
      else
        let s1 = s\<lparr>containerRect := Some (boundingClientRect c)\<rparr>;
            containerWidth = clientWidth c;
            containerHeight = clientHeight c
        in if containerWidth \<le> 0 \<or> containerHeight \<le> 0
           then s1\<lparr>frameRect := None\<rparr>
           else s1\<lparr>frameRect :=
                  Some (cropFrameRect containerWidth containerHeight (aspectRatio (options s)))\<rparr>)"

subsection \<open>View state\<close>

definition updateImageTransform :: "cropper \<Rightarrow> cropper" where
  "updateImageTransform s =
     (case imageEl s of
        None \<Rightarrow> s
      | Some im \<Rightarrow> s\<lparr>imageEl := Some (im\<lparr>transform := Some (offsetX s, offsetY s, scale s)\<rparr>)\<rparr>)"

text \<open>
  \<open>clear\<close> starts with \<open>removeEventListeners\<close>, which reads \<open>this.container\<close>: on an
  engine whose container is null that read throws a \<open>TypeError\<close>, before any field is
  reset.
\<close>

definition clear :: "cropper \<Rightarrow> error + cropper" where
  "clear s =
     (if \<not> mounted s then Inl TypeError
      else Inr (s\<lparr>imageEl := None, imageLoaded := False, scale := 1, offsetX := 0,
                  offsetY := 0, dragStart := None\<rparr>))"

definition resetView :: "cropper \<Rightarrow> cropper" where
  "resetView s =
     (if \<not> imageLoaded s then s
      else case imageEl s of
        None \<Rightarrow> s
      | Some im \<Rightarrow>
         (case frameRect s of
            None \<Rightarrow> s
          | Some fr \<Rightarrow>
             (let imgWidth = naturalWidth im;
                  imgHeight = naturalHeight im;
                  frameWidth = frame_width fr;
                  frameHeight = frame_height fr
              in if imgWidth \<le> 0 \<or> imgHeight \<le> 0 \<or> frameWidth \<le> 0 \<or> frameHeight \<le> 0
                 then updateImageTransform (s\<lparr>scale := 1, offsetX := 0, offsetY := 0\<rparr>)
                 else
                   let imageAspect = imgWidth / imgHeight;
                       frameAspect = frameWidth / frameHeight;
                       newScale = (if imageAspect > frameAspect
                                   then frameHeight / imgHeight
                                   else frameWidth / imgWidth);
                       scaledWidth = imgWidth * newScale;
                       scaledHeight = imgHeight * newScale;
                       frameCenterX = frame_left fr + frameWidth / 2;
                       frameCenterY = frame_top fr + frameHeight / 2
                   in updateImageTransform
                        (s\<lparr>scale := newScale,
                           offsetX := frameCenterX - scaledWidth / 2,
                           offsetY := frameCenterY - scaledHeight / 2\<rparr>))))"

definition zoomAtPoint :: "real \<Rightarrow> real \<Rightarrow> real \<Rightarrow> cropper \<Rightarrow> cropper" where
  "zoomAtPoint factor clientX clientY s =
     (if \<not> imageLoaded s then s
      else case containerRect s of
        None \<Rightarrow> s
      | Some cr \<Rightarrow>
         (let pointX = clientX - rect_left cr;
              pointY = clientY - rect_top cr;
              imageX = (pointX - offsetX s) / scale s;
              imageY = (pointY - offsetY s) / scale s;
              newScale = max (minZoom (options s))
                             (min (maxZoom (options s)) (scale s * factor))
          in if newScale = scale s then s
             else updateImageTransform
                    (s\<lparr>offsetX := pointX - imageX * newScale,
                       offsetY := pointY - imageY * newScale,
                       scale := newScale\<rparr>)))"

text \<open>
  \<open>zoomIn\<close> and \<open>zoomOut\<close> read \<open>this.containerRect.left\<close> after checking
  \<open>imageLoaded\<close> and \<open>frameRect\<close> only: with no cached container rectangle the read
  throws a \<open>TypeError\<close>. The factor of \<open>zoomOut\<close> is the quotient \<open>1 / (1 + zoomStep)\<close>:
  for \<open>zoomStep = -1\<close> it is \<open>Infinity\<close> in JavaScript, which the model does not have, so
  what is proved of \<open>zoomOut\<close> is proved for \<open>1 + zoomStep\<close> not zero.
\<close>

definition zoomIn :: "cropper \<Rightarrow> error + cropper" where
  "zoomIn s =
     (if \<not> imageLoaded s then Inr s
      else case frameRect s of
        None \<Rightarrow> Inr s
      | Some fr \<Rightarrow>
         (case containerRect s of
            None \<Rightarrow> Inl TypeError
          | Some cr \<Rightarrow>
             (let centerX = rect_left cr + frame_left fr + frame_width fr / 2;
                  centerY = rect_top cr + frame_top fr + frame_height fr / 2
              in Inr (zoomAtPoint (1 + zoomStep (options s)) centerX centerY s))))"

definition zoomOut :: "cropper \<Rightarrow> error + cropper" where
  "zoomOut s =
     (if \<not> imageLoaded s then Inr s
      else case frameRect s of
        None \<Rightarrow> Inr s
      | Some fr \<Rightarrow>
         (case containerRect s of
            None \<Rightarrow> Inl TypeError
          | Some cr \<Rightarrow>
             (let centerX = rect_left cr + frame_left fr + frame_width fr / 2;
                  centerY = rect_top cr + frame_top fr + frame_height fr / 2
              in Inr (zoomAtPoint (1 / (1 + zoomStep (options s))) centerX centerY s))))"

definition panImage :: "real \<Rightarrow> real \<Rightarrow> cropper \<Rightarrow> cropper" where
  "panImage deltaX deltaY s =
     (if \<not> imageLoaded s then s
      else updateImageTransform
             (s\<lparr>offsetX := offsetX s + deltaX, offsetY := offsetY s + deltaY\<rparr>))"

subsection \<open>Event handlers\<close>

definition handleMouseDown :: "mouse_event \<Rightarrow> cropper \<Rightarrow> cropper" where
  "handleMouseDown e s =
     (if \<not> imageLoaded s \<or> m_button e \<noteq> 0 then s
      else s\<lparr>dragStart := Some \<lparr>drag_x = m_clientX e, drag_y = m_clientY e,
                                drag_offsetX = offsetX s, drag_offsetY = offsetY s\<rparr>\<rparr>)"

definition handleMouseMove :: "mouse_event \<Rightarrow> cropper \<Rightarrow> cropper" where
  "handleMouseMove e s =
     (case dragStart s of
        None \<Rightarrow> s
      | Some d \<Rightarrow>
         (let dx = m_clientX e - drag_x d;
              dy = m_clientY e - drag_y d
          in updateImageTransform
               (s\<lparr>offsetX := drag_offsetX d + dx, offsetY := drag_offsetY d + dy\<rparr>)))"

definition handleMouseUp :: "mouse_event \<Rightarrow> cropper \<Rightarrow> cropper" where
  "handleMouseUp e s =
     (case dragStart s of None \<Rightarrow> s | Some d \<Rightarrow> s\<lparr>dragStart := None\<rparr>)"

definition handleWheel :: "wheel_event \<Rightarrow> cropper \<Rightarrow> cropper" where
  "handleWheel e s =
     (if \<not> imageLoaded s then s
      else
        let delta = - sgn (w_deltaY e) * zoomStep (options s);
            zoomFactor = 1 + delta
        in zoomAtPoint zoomFactor (w_clientX e) (w_clientY e) s)"

definition handleTouchStart :: "touch_event \<Rightarrow> cropper \<Rightarrow> cropper" where
  "handleTouchStart e s =
     (if \<not> imageLoaded s then s
      else if length (touches e) = 1
      then (case touches e of
              [] \<Rightarrow> s
            | t # ts \<Rightarrow>
               s\<lparr>dragStart := Some \<lparr>drag_x = t_clientX t, drag_y = t_clientY t,
                                     drag_offsetX = offsetX s, drag_offsetY = offsetY s\<rparr>\<rparr>)
      else s)"

definition handleTouchMove :: "touch_event \<Rightarrow> cropper \<Rightarrow> cropper" where
  "handleTouchMove e s =
     (case dragStart s of
        None \<Rightarrow> s
      | Some d \<Rightarrow>
         (if length (touches e) \<noteq> 1 then s
          else case touches e of
            [] \<Rightarrow> s
          | t # ts \<Rightarrow>
             (let dx = t_clientX t - drag_x d;
                  dy = t_clientY t - drag_y d
              in updateImageTransform
                   (s\<lparr>offsetX := drag_offsetX d + dx, offsetY := drag_offsetY d + dy\<rparr>))))"

definition handleTouchEnd :: "touch_event \<Rightarrow> cropper \<Rightarrow> cropper" where
  "handleTouchEnd e s =
     (case dragStart s of None \<Rightarrow> s | Some d \<Rightarrow> s\<lparr>dragStart := None\<rparr>)"

subsection \<open>Construction, loading and clearing\<close>

definition default_options :: cropper_options where
  "default_options = \<lparr>aspectRatio = 8.5 / 11, minZoom = 0.1, maxZoom = 5, zoomStep = 0.1\<rparr>"

text \<open>
  The constructor, for a valid container element and the merged options: the initial
  state, then \<open>updateCropFrame\<close>.
\<close>

definition new_ImageCropper :: "container_el \<Rightarrow> cropper_options \<Rightarrow> cropper" where
  "new_ImageCropper c opts =
     updateCropFrame c
       \<lparr>options = opts, imageEl = None, imageLoaded = False, scale = 1, offsetX = 0,
        offsetY = 0, containerRect = None, frameRect = None, dragStart = None,
        mounted = True\<rparr>"

text \<open>
  The synchronous part of \<open>loadImage\<close>, the body of the promise executor up to the start
  of the file read: \<open>clear\<close>, then the check of the file, then the creation of the image
  element. The first component is the error the promise is rejected with, if any: the
  error of the explicit \<open>reject\<close>, or the exception that \<open>clear\<close> throws inside the executor.
\<close>

definition loadImage :: "js_file option \<Rightarrow> cropper \<Rightarrow> error option \<times> cropper" where
  "loadImage file s =
     (case clear s of
        Inl e \<Rightarrow> (Some e, s)
      | Inr s1 \<Rightarrow>
         (case file of
            None \<Rightarrow> (Some InvalidFileType, s1)
          | Some f \<Rightarrow>
             (if \<not> prefix ''image/'' (file_type f) then (Some InvalidFileType, s1)
              else (None, s1\<lparr>imageEl :=
                        Some \<lparr>naturalWidth = 0, naturalHeight = 0, transform = None\<rparr>\<rparr>))))"

text \<open>
  The \<open>onload\<close> handler of the image element, fired when the image is decoded with
  natural size \<open>w\<close> by \<open>h\<close>. Inserting a null image, or inserting into a null container,
  throws.
\<close>

definition image_onload :: "real \<Rightarrow> real \<Rightarrow> container_el \<Rightarrow> cropper \<Rightarrow> error + cropper" where
  "image_onload w h c s =
     (if \<not> mounted s then Inl TypeError
      else case imageEl s of
        None \<Rightarrow> Inl TypeError
      | Some im \<Rightarrow>
         (let s1 = s\<lparr>imageEl := Some (im\<lparr>naturalWidth := w, naturalHeight := h\<rparr>),
                     imageLoaded := True\<rparr>
          in Inr (resetView (updateCropFrame c s1))))"

text \<open>
  The \<open>onerror\<close> handler of the image element: \<open>clear\<close>, and the promise is rejected.
  The first component is the error of the rejection, or the exception that \<open>clear\<close> throws.
\<close>

definition image_onerror :: "cropper \<Rightarrow> error option \<times> cropper" where
  "image_onerror s =
     (case clear s of
        Inl e \<Rightarrow> (Some e, s)
      | Inr s1 \<Rightarrow> (Some LoadFailed, s1))"

subsection \<open>Extraction\<close>

text \<open>\<open>Math.round\<close>: the nearest integer, a tie going up.\<close>

definition Math_round :: "real \<Rightarrow> int" where
  "Math_round x = \<lfloor>x + 1 / 2\<rfloor>"

text \<open>
  The \<open>width\<close> and \<open>height\<close> of a canvas element are reflected attributes of type
  \<open>unsigned long\<close>, with the defaults 300 and 150. The integer written is converted to an
  \<open>unsigned long\<close>, that is taken modulo \<open>2^32\<close>; a result above 2147483647 is replaced by
  the default. The attribute reads back as the value so stored.
\<close>

definition reflect_unsigned_long :: "int \<Rightarrow> int \<Rightarrow> int" where
  "reflect_unsigned_long dflt v =
     (let n = v mod 4294967296 in if n \<le> 2147483647 then n else dflt)"

record canvas =
  canvas_width :: int
  canvas_height :: int

text \<open>
  The arguments of the one call of \<open>drawImage\<close>:
  \<open>(image, sx, sy, sWidth, sHeight, dx, dy, dWidth, dHeight)\<close>.
\<close>

record draw_args =
  arg_image :: image_el
  arg_sx :: real
  arg_sy :: real
  arg_sWidth :: real
  arg_sHeight :: real
  arg_dx :: real
  arg_dy :: real
  arg_dWidth :: int
  arg_dHeight :: int

text \<open>
  The canvas of the browser: whether \<open>getContext('2d')\<close> gives a context for a canvas of
  that size, whether \<open>drawImage\<close> returns (\<open>False\<close>: it throws), and the data URL that
  \<open>toDataURL(format, quality)\<close> gives for the canvas after that call (\<open>None\<close>: it throws).
\<close>

record canvas_host =
  getContext :: "canvas \<Rightarrow> bool"
  drawImage :: "draw_args \<Rightarrow> bool"
  toDataURL :: "canvas \<Rightarrow> draw_args \<Rightarrow> string \<Rightarrow> real \<Rightarrow> string option"

text \<open>
  \<open>getCroppedImage(format = 'image/jpeg', quality = 0.92, outputWidth = 850)\<close>: an
  argument left out is \<open>None\<close>. The result is the data URL or null, with the state of the
  engine after the call.
\<close>

definition getCroppedImage ::
  "canvas_host \<Rightarrow> string option \<Rightarrow> real option \<Rightarrow> real option \<Rightarrow> cropper
     \<Rightarrow> string option \<times> cropper" where
  "getCroppedImage host format0 quality0 outputWidth0 s =
     (let format = (case format0 of None \<Rightarrow> ''image/jpeg'' | Some f \<Rightarrow> f);
          quality = (case quality0 of None \<Rightarrow> 0.92 | Some q \<Rightarrow> q);
          outputWidth = (case outputWidth0 of None \<Rightarrow> 850 | Some w \<Rightarrow> w)
      in if \<not> imageLoaded s then (None, s)
         else case imageEl s of
           None \<Rightarrow> (None, s)
         | Some im \<Rightarrow>
            (case frameRect s of
               None \<Rightarrow> (None, s)
             | Some fr \<Rightarrow>
                (let outputHeight = outputWidth / aspectRatio (options s);
                     cv = \<lparr>canvas_width =
                             reflect_unsigned_long 300 (Math_round outputWidth),
                           canvas_height =
                             reflect_unsigned_long 150 (Math_round outputHeight)\<rparr>
                 in if \<not> getContext host cv then (None, s)
                    else
                      let frameX_container = frame_left fr;
                          frameY_container = frame_top fr;
                          imageX_container = offsetX s;
                          imageY_container = offsetY s;
                          frameX_scaledImg = frameX_container - imageX_container;
                          frameY_scaledImg = frameY_container - imageY_container;
                          sourceX = frameX_scaledImg / scale s;
                          sourceY = frameY_scaledImg / scale s;
                          sourceWidth = frame_width fr / scale s;
                          sourceHeight = frame_height fr / scale s;
                          call = \<lparr>arg_image = im, arg_sx = sourceX, arg_sy = sourceY,
                                  arg_sWidth = sourceWidth, arg_sHeight = sourceHeight,
                                  arg_dx = 0, arg_dy = 0,
                                  arg_dWidth = canvas_width cv,
                                  arg_dHeight = canvas_height cv\<rparr>
                      in if \<not> drawImage host call then (None, s)
                         else (toDataURL host cv call format quality, s))))"

subsection \<open>Example states\<close>

text \<open>
  A container of 1000 by 800 pixels at (10, 20), the default options, and the states
  reached from the constructor by loading an image of a given natural size.
\<close>

definition ex_container :: container_el where
  "ex_container = \<lparr>clientWidth = 1000, clientHeight = 800,
                    boundingClientRect = \<lparr>rect_left = 10, rect_top = 20\<rparr>\<rparr>"

definition ex_file :: js_file where
  "ex_file = \<lparr>file_type = ''image/png''\<rparr>"

definition ex_fresh :: cropper where
  "ex_fresh = new_ImageCropper ex_container default_options"

definition load_example :: "real \<Rightarrow> real \<Rightarrow> cropper" where
  "load_example w h =
     (case image_onload w h ex_container (snd (loadImage (Some ex_file) ex_fresh)) of
        Inl e \<Rightarrow> ex_fresh
      | Inr s \<Rightarrow> s)"

definition ex_loaded :: cropper where
  "ex_loaded = load_example 2000 1000"

definition ex_big :: cropper where
  "ex_big = load_example 20000 20000"

definition ex_text_file :: js_file where
  "ex_text_file = \<lparr>file_type = ''text/plain''\<rparr>"

definition ex_rect :: dom_rect where
  "ex_rect = \<lparr>rect_left = 10, rect_top = 20\<rparr>"

text \<open>The frame of the example container for the default aspect ratio.\<close>

definition ex_frame :: frame_rect where
  "ex_frame = \<lparr>frame_left = 2440 / 11, frame_top = 40, frame_width = 6120 / 11,
                frame_height = 720, frame_right = 8560 / 11, frame_bottom = 760\<rparr>"

text \<open>A drag in progress: a mouse-down at (100, 100), then a move to (130, 140).\<close>

definition ex_dragging :: cropper where
  "ex_dragging =
     handleMouseMove \<lparr>m_button = 0, m_clientX = 130, m_clientY = 140\<rparr>
       (handleMouseDown \<lparr>m_button = 0, m_clientX = 100, m_clientY = 100\<rparr> ex_loaded)"

text \<open>The example image zoomed in until the clamp.\<close>

definition ex_max :: cropper where
  "ex_max = zoomAtPoint 10 510 420 ex_loaded"

text \<open>
  A canvas that accepts one call only: it gives a context for a canvas of 850 by 1100
  pixels, draws the source rectangle (6750/11, 0, 8500/11, 1000) of an image of 2000 by
  1000 pixels into the whole of that canvas, and encodes that canvas at quality 0.92.
  For any other canvas there is no context, and any other call throws.
\<close>

definition ex_host :: canvas_host where
  "ex_host =
     \<lparr>getContext = (\<lambda>cv. canvas_width cv = 850 \<and> canvas_height cv = 1100),
      drawImage = (\<lambda>a. naturalWidth (arg_image a) = 2000 \<and> naturalHeight (arg_image a) = 1000
                      \<and> arg_sx a = 6750 / 11 \<and> arg_sy a = 0
                      \<and> arg_sWidth a = 8500 / 11 \<and> arg_sHeight a = 1000
                      \<and> arg_dx a = 0 \<and> arg_dy a = 0
                      \<and> arg_dWidth a = 850 \<and> arg_dHeight a = 1100),
      toDataURL = (\<lambda>cv a f q.
                     if canvas_width cv = arg_dWidth a \<and> canvas_height cv = arg_dHeight a
                        \<and> q = 0.92
                     then Some (''data:'' @ f) else None)\<rparr>"

section \<open>Properties\<close>

subsection \<open>The example states, evaluated\<close>

lemma prefix_image_png: "prefix ''image/'' ''image/png''"
  by (simp add: prefix_def)

lemma ex_fresh_eq:
  "ex_fresh =
     \<lparr>options = default_options,
      imageEl = None,
      imageLoaded = False, scale = 1, offsetX = 0, offsetY = 0,
      containerRect = Some \<lparr>rect_left = 10, rect_top = 20\<rparr>,
      frameRect = Some \<lparr>frame_left = 2440 / 11, frame_top = 40, frame_width = 6120 / 11,
                         frame_height = 720, frame_right = 8560 / 11, frame_bottom = 760\<rparr>,
      dragStart = None,
      mounted = True\<rparr>"
  by (simp add: ex_fresh_def new_ImageCropper_def updateCropFrame_def ex_container_def
      cropFrameRect_def default_options_def Let_def)

lemma ex_loaded_eq:
  "ex_loaded =
     \<lparr>options = default_options,
      imageEl = Some \<lparr>naturalWidth = 2000, naturalHeight = 1000,
                     transform = Some (- 220, 40, 0.72)\<rparr>,
      imageLoaded = True, scale = 0.72, offsetX = - 220, offsetY = 40,
      containerRect = Some \<lparr>rect_left = 10, rect_top = 20\<rparr>,
      frameRect = Some \<lparr>frame_left = 2440 / 11, frame_top = 40, frame_width = 6120 / 11,
                         frame_height = 720, frame_right = 8560 / 11, frame_bottom = 760\<rparr>,
      dragStart = None,
      mounted = True\<rparr>"
  by (simp add: ex_loaded_def load_example_def image_onload_def loadImage_def ex_file_def
      prefix_image_png clear_def ex_fresh_eq resetView_def updateImageTransform_def
      updateCropFrame_def ex_container_def cropFrameRect_def default_options_def Let_def)

lemma ex_big_eq:
  "ex_big =
     \<lparr>options = default_options,
      imageEl = Some \<lparr>naturalWidth = 20000, naturalHeight = 20000,
                     transform = Some (140, 40, 0.036)\<rparr>,
      imageLoaded = True, scale = 0.036, offsetX = 140, offsetY = 40,
      containerRect = Some \<lparr>rect_left = 10, rect_top = 20\<rparr>,
      frameRect = Some \<lparr>frame_left = 2440 / 11, frame_top = 40, frame_width = 6120 / 11,
                         frame_height = 720, frame_right = 8560 / 11, frame_bottom = 760\<rparr>,
      dragStart = None,
      mounted = True\<rparr>"
  by (simp add: ex_big_def load_example_def image_onload_def loadImage_def ex_file_def
      prefix_image_png clear_def ex_fresh_eq resetView_def updateImageTransform_def
      updateCropFrame_def ex_container_def cropFrameRect_def default_options_def Let_def)

lemma ex_dragging_eq:
  "ex_dragging =
     \<lparr>options = default_options,
      imageEl = Some \<lparr>naturalWidth = 2000, naturalHeight = 1000,
                     transform = Some (- 190, 80, 0.72)\<rparr>,
      imageLoaded = True, scale = 0.72, offsetX = - 190, offsetY = 80,
      containerRect = Some \<lparr>rect_left = 10, rect_top = 20\<rparr>,
      frameRect = Some \<lparr>frame_left = 2440 / 11, frame_top = 40, frame_width = 6120 / 11,
                         frame_height = 720, frame_right = 8560 / 11, frame_bottom = 760\<rparr>,
      dragStart = Some \<lparr>drag_x = 100, drag_y = 100, drag_offsetX = - 220, drag_offsetY = 40\<rparr>,
      mounted = True\<rparr>"
  by (simp add: ex_dragging_def handleMouseMove_def handleMouseDown_def ex_loaded_eq
      updateImageTransform_def Let_def)

lemma ex_max_eq:
  "ex_max =
     \<lparr>options = default_options,
      imageEl = Some \<lparr>naturalWidth = 2000, naturalHeight = 1000,
                     transform = Some (- 4500, - 2100, 5)\<rparr>,
      imageLoaded = True, scale = 5, offsetX = - 4500, offsetY = - 2100,
      containerRect = Some \<lparr>rect_left = 10, rect_top = 20\<rparr>,
      frameRect = Some \<lparr>frame_left = 2440 / 11, frame_top = 40, frame_width = 6120 / 11,
                         frame_height = 720, frame_right = 8560 / 11, frame_bottom = 760\<rparr>,
      dragStart = None,
      mounted = True\<rparr>"
  by (simp add: ex_max_def zoomAtPoint_def ex_loaded_eq default_options_def
      updateImageTransform_def Let_def)

subsection \<open>Fields that the operations leave unchanged\<close>

lemma updateImageTransform_fields [simp]:
  "options (updateImageTransform s) = options s"
  "imageLoaded (updateImageTransform s) = imageLoaded s"
  "scale (updateImageTransform s) = scale s"
  "offsetX (updateImageTransform s) = offsetX s"
  "offsetY (updateImageTransform s) = offsetY s"
  "containerRect (updateImageTransform s) = containerRect s"
  "frameRect (updateImageTransform s) = frameRect s"
  "dragStart (updateImageTransform s) = dragStart s"
  "mounted (updateImageTransform s) = mounted s"
  by (simp_all add: updateImageTransform_def split: option.splits)

lemma zoomAtPoint_fields [simp]:
  "options (zoomAtPoint f x y s) = options s"
  "imageLoaded (zoomAtPoint f x y s) = imageLoaded s"
  "containerRect (zoomAtPoint f x y s) = containerRect s"
  "frameRect (zoomAtPoint f x y s) = frameRect s"
  "dragStart (zoomAtPoint f x y s) = dragStart s"
  "mounted (zoomAtPoint f x y s) = mounted s"
  by (simp_all add: zoomAtPoint_def Let_def split: option.splits)

lemma resetView_fields [simp]:
  "options (resetView s) = options s"
  "imageLoaded (resetView s) = imageLoaded s"
  "containerRect (resetView s) = containerRect s"
  "frameRect (resetView s) = frameRect s"
  "dragStart (resetView s) = dragStart s"
  "mounted (resetView s) = mounted s"
  by (simp_all add: resetView_def Let_def split: option.splits)

lemma resetView_imageEl:
  "imageEl s \<noteq> None \<Longrightarrow> imageEl (resetView s) \<noteq> None"
  by (auto simp add: resetView_def updateImageTransform_def Let_def split: option.splits)

subsection \<open>Zooming within the range, and its inverse\<close>

lemma zoomAtPoint_changed:
  assumes "imageLoaded s" and "containerRect s = Some cr"
    and "minZoom (options s) \<le> scale s * f" and "scale s * f \<le> maxZoom (options s)"
    and "scale s * f \<noteq> scale s"
  shows "scale (zoomAtPoint f x y s) = scale s * f"
    and "offsetX (zoomAtPoint f x y s)
           = (x - rect_left cr) - ((x - rect_left cr) - offsetX s) / scale s * (scale s * f)"
    and "offsetY (zoomAtPoint f x y s)
           = (y - rect_top cr) - ((y - rect_top cr) - offsetY s) / scale s * (scale s * f)"
  using assms by (simp_all add: zoomAtPoint_def Let_def)

lemma zoomAtPoint_noop:
  assumes "max (minZoom (options s)) (min (maxZoom (options s)) (scale s * f)) = scale s"
  shows "zoomAtPoint f x y s = s"
  using assms by (simp add: zoomAtPoint_def Let_def split: option.splits)

lemma zoomAtPoint_same:
  assumes "minZoom (options s) \<le> scale s" and "scale s \<le> maxZoom (options s)"
    and "scale s * f = scale s"
  shows "zoomAtPoint f x y s = s"
proof -
  have "max (minZoom (options s)) (min (maxZoom (options s)) (scale s * f)) = scale s"
    unfolding assms(3) using assms(1,2) by simp
  then show ?thesis
    by (rule zoomAtPoint_noop)
qed

lemma zoomAtPoint_inverse:
  assumes loaded: "imageLoaded s" and cr: "containerRect s = Some cr"
    and fg: "f * g = 1"
    and lo1: "minZoom (options s) \<le> scale s * f" and hi1: "scale s * f \<le> maxZoom (options s)"
    and lo: "minZoom (options s) \<le> scale s" and hi: "scale s \<le> maxZoom (options s)"
  shows "scale (zoomAtPoint g x y (zoomAtPoint f x y s)) = scale s
     \<and> offsetX (zoomAtPoint g x y (zoomAtPoint f x y s)) = offsetX s
     \<and> offsetY (zoomAtPoint g x y (zoomAtPoint f x y s)) = offsetY s"
proof (cases "scale s * f = scale s")
  case True
  then have "scale s = 0 \<or> f = 1"
    by simp
  then have "scale s * g = scale s"
    using fg by auto
  then show ?thesis
    using True lo hi by (simp add: zoomAtPoint_same)
next
  case False
  let ?s1 = "zoomAtPoint f x y s"
  let ?px = "x - rect_left cr" and ?py = "y - rect_top cr"
  have k: "scale s \<noteq> 0" and f: "f \<noteq> 0"
    using False fg by auto
  have sc1: "scale ?s1 = scale s * f"
    and ox1: "offsetX ?s1 = ?px - (?px - offsetX s) / scale s * (scale s * f)"
    and oy1: "offsetY ?s1 = ?py - (?py - offsetY s) / scale s * (scale s * f)"
    using zoomAtPoint_changed [OF loaded cr lo1 hi1 False] by simp_all
  have undo: "scale ?s1 * g = scale s"
    using fg by (simp add: sc1 mult.assoc)
  have loaded1: "imageLoaded ?s1" and cr1: "containerRect ?s1 = Some cr"
    using loaded cr by simp_all
  have ne: "scale ?s1 * g \<noteq> scale ?s1"
    unfolding undo using False by (simp add: sc1)
  have lo2: "minZoom (options ?s1) \<le> scale ?s1 * g"
    and hi2: "scale ?s1 * g \<le> maxZoom (options ?s1)"
    unfolding undo using lo hi by simp_all
  note z2 = zoomAtPoint_changed [OF loaded1 cr1 lo2 hi2 ne, of x y]
  have "scale (zoomAtPoint g x y ?s1) = scale s"
    using z2(1) unfolding undo by simp
  moreover have "offsetX (zoomAtPoint g x y ?s1) = offsetX s"
    using k f unfolding z2(2) undo by (simp add: ox1 sc1)
  moreover have "offsetY (zoomAtPoint g x y ?s1) = offsetY s"
    using k f unfolding z2(3) undo by (simp add: oy1 sc1)
  ultimately show ?thesis
    by simp
qed

subsection \<open>The size of the canvas\<close>

lemma reflect_unsigned_long_in_range:
  assumes "0 \<le> v" and "v \<le> 2147483647"
  shows "reflect_unsigned_long dflt v = v"
  using assms by (simp add: reflect_unsigned_long_def Let_def)

lemma reflect_unsigned_long_out_of_range:
  "reflect_unsigned_long 300 (- 2) = 300"
  "reflect_unsigned_long 150 (- 3) = 150"
  "reflect_unsigned_long 300 5000000000 = 705032704"
  by (simp_all add: reflect_unsigned_long_def Let_def)

lemma Math_round_nonneg:
  assumes "0 \<le> x"
  shows "0 \<le> Math_round x"
  using assms by (simp add: Math_round_def)

lemma Math_round_of_int:
  "Math_round (of_int n) = n"
  by (simp add: Math_round_def)

subsection \<open>Loading on an engine without a container\<close>

lemma loadImage_unmounted:
  assumes "\<not> mounted s"
  shows "loadImage file s = (Some TypeError, s)"
  using assms by (simp add: loadImage_def clear_def)

subsection \<open>The state after a load\<close>

lemma cropFrameRect_positive:
  assumes "0 < w" and "0 < h" and "0 < r"
  shows "0 < frame_width (cropFrameRect w h r)" and "0 < frame_height (cropFrameRect w h r)"
  using assms by (simp_all add: cropFrameRect_def Let_def max_def split_def)

lemma resetView_scale_positive:
  assumes "imageLoaded s" and "imageEl s \<noteq> None" and "frameRect s = Some fr"
    and "0 < frame_width fr" and "0 < frame_height fr"
  shows "0 < scale (resetView s)"
  using assms by (auto simp add: resetView_def Let_def not_le)

lemma image_onload_after_loadImage:
  assumes "mounted s0" and "prefix ''image/'' (file_type f)"
    and "0 < clientWidth c" and "0 < clientHeight c" and "0 < aspectRatio (options s0)"
  shows "\<exists>s2 im. image_onload w h c (snd (loadImage (Some f) s0)) = Inr s2
     \<and> imageLoaded s2 \<and> imageEl s2 = Some im \<and> options s2 = options s0
     \<and> frameRect s2
         = Some (cropFrameRect (clientWidth c) (clientHeight c) (aspectRatio (options s0)))
     \<and> 0 < scale s2"
proof -
  let ?s1 = "snd (loadImage (Some f) s0)"
  let ?fr = "cropFrameRect (clientWidth c) (clientHeight c) (aspectRatio (options s0))"
  let ?t = "updateCropFrame c
     (?s1\<lparr>imageEl := Some \<lparr>naturalWidth = w, naturalHeight = h, transform = None\<rparr>,
          imageLoaded := True\<rparr>)"
  have s1: "mounted ?s1"
      "imageEl ?s1 = Some \<lparr>naturalWidth = 0, naturalHeight = 0, transform = None\<rparr>"
      "options ?s1 = options s0"
    using assms by (simp_all add: loadImage_def clear_def Let_def)
  have run: "image_onload w h c ?s1 = Inr (resetView ?t)"
    by (simp add: image_onload_def s1 Let_def)
  have t: "imageLoaded ?t" "imageEl ?t \<noteq> None" "options ?t = options s0" "frameRect ?t = Some ?fr"
    using assms by (simp_all add: updateCropFrame_def Let_def s1)
  have "imageEl (resetView ?t) \<noteq> None"
    using t(2) by (rule resetView_imageEl)
  then obtain im where "imageEl (resetView ?t) = Some im"
    by blast
  moreover have "0 < scale (resetView ?t)"
    using t(1) t(2) t(4) cropFrameRect_positive [OF assms(3-5)]
    by (rule resetView_scale_positive)
  ultimately show ?thesis
    using run t by simp
qed

lemma cropFrameRect_ratio:
  assumes "0 < w" and "0 < h" and "0 < r"
  shows "frame_width (cropFrameRect w h r) / frame_height (cropFrameRect w h r) = r"
  using assms by (simp add: cropFrameRect_def Let_def max_def split_def)

subsection \<open>Claims\<close>

text \<open>
  C1. In a state with an image loaded, a cached container rectangle and a scale that is
  not zero, a call of \<open>zoomAtPoint\<close> whose clamped scale differs from the current scale
  keeps the anchor in place: with \<open>point\<close> the client coordinate relative to the top-left
  of the container and \<open>imagePoint = (point - oldOffset) / oldScale\<close>, the new offset and
  scale satisfy \<open>offset' + scale' * imagePoint = point\<close>, on each axis.
\<close>

theorem zoomAtPoint_anchor:
  assumes "imageLoaded s" and "containerRect s = Some cr" and "scale s \<noteq> 0"
    and "max (minZoom (options s)) (min (maxZoom (options s)) (scale s * factor)) \<noteq> scale s"
  shows "offsetX (zoomAtPoint factor clientX clientY s)
           + scale (zoomAtPoint factor clientX clientY s)
             * ((clientX - rect_left cr - offsetX s) / scale s) = clientX - rect_left cr
       \<and> offsetY (zoomAtPoint factor clientX clientY s)
           + scale (zoomAtPoint factor clientX clientY s)
             * ((clientY - rect_top cr - offsetY s) / scale s) = clientY - rect_top cr"
  using assms
  by (simp add: zoomAtPoint_def updateImageTransform_def Let_def split: option.splits)

theorem zoomAtPoint_anchor_witness:
  "imageLoaded ex_loaded \<and> containerRect ex_loaded = Some \<lparr>rect_left = 10, rect_top = 20\<rparr>
   \<and> scale ex_loaded \<noteq> 0
   \<and> max (minZoom (options ex_loaded)) (min (maxZoom (options ex_loaded)) (scale ex_loaded * (11 / 10)))
       \<noteq> scale ex_loaded
   \<and> offsetX (zoomAtPoint (11 / 10) 510 420 ex_loaded)
        + scale (zoomAtPoint (11 / 10) 510 420 ex_loaded) * ((510 - 10 - offsetX ex_loaded) / scale ex_loaded)
       = 510 - 10
   \<and> offsetY (zoomAtPoint (11 / 10) 510 420 ex_loaded)
        + scale (zoomAtPoint (11 / 10) 510 420 ex_loaded) * ((420 - 20 - offsetY ex_loaded) / scale ex_loaded)
       = 420 - 20"
proof -
  have h1: "imageLoaded ex_loaded"
    by (simp add: ex_loaded_eq)
  have h2: "containerRect ex_loaded = Some \<lparr>rect_left = 10, rect_top = 20\<rparr>"
    by (simp add: ex_loaded_eq)
  have h3: "scale ex_loaded \<noteq> 0"
    by (simp add: ex_loaded_eq)
  have h4: "max (minZoom (options ex_loaded))
              (min (maxZoom (options ex_loaded)) (scale ex_loaded * (11 / 10))) \<noteq> scale ex_loaded"
    by (simp add: ex_loaded_eq default_options_def)
  from zoomAtPoint_anchor [OF h1 h2 h3 h4, of 510 420] h1 h2 h3 h4 show ?thesis
    by simp
qed

text \<open>
  C2. For a container of positive client width and height and a positive aspect ratio,
  \<open>updateCropFrame\<close> stores a frame whose width over height is the aspect ratio, that
  is at most 90% of the container on each axis, and that is centred
  (\<open>left = containerWidth - right\<close>, \<open>top = containerHeight - bottom\<close>). When the available
  area is relatively wider than the aspect ratio the height is the available height and
  the width is height times ratio; otherwise the width is the available width and the
  height is width over ratio.
\<close>

theorem updateCropFrame_frame:
  assumes "mounted s" and "0 < clientWidth c" and "0 < clientHeight c"
    and "0 < aspectRatio (options s)"
  shows "\<exists>fr. frameRect (updateCropFrame c s) = Some fr
     \<and> frame_width fr / frame_height fr = aspectRatio (options s)
     \<and> frame_width fr \<le> 0.9 * clientWidth c
     \<and> frame_height fr \<le> 0.9 * clientHeight c
     \<and> frame_left fr = clientWidth c - frame_right fr
     \<and> frame_top fr = clientHeight c - frame_bottom fr
     \<and> (if clientWidth c * 0.9 / (clientHeight c * 0.9) > aspectRatio (options s)
        then frame_height fr = clientHeight c * 0.9
           \<and> frame_width fr = frame_height fr * aspectRatio (options s)
        else frame_width fr = clientWidth c * 0.9
           \<and> frame_height fr = frame_width fr / aspectRatio (options s))"
proof -
  let ?w = "clientWidth c" and ?h = "clientHeight c" and ?r = "aspectRatio (options s)"
  let ?fr = "cropFrameRect ?w ?h ?r"
  have fr: "frameRect (updateCropFrame c s) = Some ?fr"
    using assms by (simp add: updateCropFrame_def Let_def)
  have centred: "frame_left ?fr = ?w - frame_right ?fr \<and> frame_top ?fr = ?h - frame_bottom ?fr"
    by (simp add: cropFrameRect_def Let_def split_def field_simps)
  have sizes: "frame_width ?fr / frame_height ?fr = ?r \<and> frame_width ?fr \<le> 0.9 * ?w
      \<and> frame_height ?fr \<le> 0.9 * ?h
      \<and> (if ?w * 0.9 / (?h * 0.9) > ?r
          then frame_height ?fr = ?h * 0.9 \<and> frame_width ?fr = frame_height ?fr * ?r
          else frame_width ?fr = ?w * 0.9 \<and> frame_height ?fr = frame_width ?fr / ?r)"
  proof (cases "?w * 0.9 / (?h * 0.9) > ?r")
    case True
    then have lt: "?h * ?r < ?w"
      using assms by (simp add: field_simps)
    have w: "frame_width ?fr = ?h * 0.9 * ?r" and h: "frame_height ?fr = ?h * 0.9"
      using True assms by (simp_all add: cropFrameRect_def Let_def max_def)
    have "frame_width ?fr \<le> 0.9 * ?w"
      using lt by (simp add: w)
    moreover have "frame_height ?fr \<le> 0.9 * ?h"
      by (simp add: h)
    moreover have "frame_width ?fr / frame_height ?fr = ?r"
      using assms by (simp add: w h)
    moreover have "frame_width ?fr = frame_height ?fr * ?r"
      by (simp add: w h)
    ultimately show ?thesis
      unfolding if_P [OF True] using h by blast
  next
    case False
    then have le: "?w \<le> ?r * ?h"
      using assms by (simp add: field_simps)
    have w: "frame_width ?fr = ?w * 0.9" and h: "frame_height ?fr = ?w * 0.9 / ?r"
      using False assms by (simp_all add: cropFrameRect_def Let_def max_def)
    have "frame_height ?fr \<le> 0.9 * ?h"
      using le assms by (simp add: h field_simps)
    moreover have "frame_width ?fr \<le> 0.9 * ?w"
      by (simp add: w)
    moreover have "frame_width ?fr / frame_height ?fr = ?r"
      using assms by (simp add: w h)
    moreover have "frame_height ?fr = frame_width ?fr / ?r"
      by (simp add: w h)
    ultimately show ?thesis
      unfolding if_not_P [OF False] using w by blast
  qed
  from fr centred sizes show ?thesis
    by blast
qed

theorem updateCropFrame_frame_witness:
  "mounted ex_loaded \<and> 0 < clientWidth ex_container \<and> 0 < clientHeight ex_container
   \<and> 0 < aspectRatio (options ex_loaded)
   \<and> (\<exists>fr. frameRect (updateCropFrame ex_container ex_loaded) = Some fr
     \<and> frame_width fr / frame_height fr = aspectRatio (options ex_loaded)
     \<and> frame_width fr \<le> 0.9 * clientWidth ex_container
     \<and> frame_height fr \<le> 0.9 * clientHeight ex_container
     \<and> frame_left fr = clientWidth ex_container - frame_right fr
     \<and> frame_top fr = clientHeight ex_container - frame_bottom fr
     \<and> (if clientWidth ex_container * 0.9 / (clientHeight ex_container * 0.9)
             > aspectRatio (options ex_loaded)
        then frame_height fr = clientHeight ex_container * 0.9
           \<and> frame_width fr = frame_height fr * aspectRatio (options ex_loaded)
        else frame_width fr = clientWidth ex_container * 0.9
           \<and> frame_height fr = frame_width fr / aspectRatio (options ex_loaded)))"
proof -
  have h1: "mounted ex_loaded"
    by (simp add: ex_loaded_eq)
  have h2: "0 < clientWidth ex_container" and h3: "0 < clientHeight ex_container"
    by (simp_all add: ex_container_def)
  have h4: "0 < aspectRatio (options ex_loaded)"
    by (simp add: ex_loaded_eq default_options_def)
  from updateCropFrame_frame [OF h1 h2 h3 h4] h1 h2 h3 h4 show ?thesis
    by blast
qed



text \<open>
  C4. With an image loaded and a frame defined (scale and aspect ratio not zero), and an
  output width whose rounded width and height are sizes a canvas can have (from 0 to
  2147483647), \<open>getCroppedImage\<close> draws the source rectangle
  \<open>sourceX = (frame.left - offsetX) / scale\<close>,
  \<open>sourceY = (frame.top - offsetY) / scale\<close>, \<open>sourceWidth = frame.width / scale\<close>,
  \<open>sourceHeight = frame.height / scale\<close> into a canvas of \<open>round(outputWidth)\<close> by
  \<open>round(outputWidth / aspectRatio)\<close> pixels, and returns the data URL of that canvas (null
  when there is no context or a call throws). In particular, in the state reached by
  loading an image into a container of positive size with a positive aspect ratio, the
  aspect ratio of the frame is the configured one and, for an integer \<open>outputWidth\<close> in
  that range, the canvas is \<open>outputWidth\<close> by \<open>round(outputWidth / frameAspectRatio)\<close>.
\<close>

theorem getCroppedImage_draw:
  "(imageLoaded s \<and> imageEl s = Some im \<and> frameRect s = Some fr
      \<and> scale s \<noteq> 0 \<and> aspectRatio (options s) \<noteq> 0
      \<and> 0 \<le> Math_round outputWidth \<and> Math_round outputWidth \<le> 2147483647
      \<and> 0 \<le> Math_round (outputWidth / aspectRatio (options s))
      \<and> Math_round (outputWidth / aspectRatio (options s)) \<le> 2147483647 \<longrightarrow>
      fst (getCroppedImage host format quality (Some outputWidth) s)
        = (let cv = \<lparr>canvas_width = Math_round outputWidth,
                      canvas_height = Math_round (outputWidth / aspectRatio (options s))\<rparr>;
               call = \<lparr>arg_image = im,
                        arg_sx = (frame_left fr - offsetX s) / scale s,
                        arg_sy = (frame_top fr - offsetY s) / scale s,
                        arg_sWidth = frame_width fr / scale s,
                        arg_sHeight = frame_height fr / scale s,
                        arg_dx = 0, arg_dy = 0,
                        arg_dWidth = Math_round outputWidth,
                        arg_dHeight = Math_round (outputWidth / aspectRatio (options s))\<rparr>
               in if getContext host cv \<and> drawImage host call
                  then toDataURL host cv call
                         (case format of None \<Rightarrow> ''image/jpeg'' | Some f \<Rightarrow> f)
                         (case quality of None \<Rightarrow> 0.92 | Some q \<Rightarrow> q)
                  else None))
   \<and> (mounted s0 \<and> prefix ''image/'' (file_type file) \<and> 0 < clientWidth c
        \<and> 0 < clientHeight c \<and> 0 < aspectRatio (options s0)
        \<and> 0 \<le> n \<and> n \<le> 2147483647
        \<and> Math_round (of_int n / aspectRatio (options s0)) \<le> 2147483647 \<longrightarrow>
      (\<exists>s2 im2 fr2.
          image_onload w h c (snd (loadImage (Some file) s0)) = Inr s2
        \<and> imageEl s2 = Some im2 \<and> frameRect s2 = Some fr2 \<and> 0 < scale s2
        \<and> frame_width fr2 / frame_height fr2 = aspectRatio (options s2)
        \<and> fst (getCroppedImage host format quality (Some (of_int n)) s2)
            = (let cv = \<lparr>canvas_width = n,
                          canvas_height =
                            Math_round (of_int n / (frame_width fr2 / frame_height fr2))\<rparr>;
                   call = \<lparr>arg_image = im2,
                            arg_sx = (frame_left fr2 - offsetX s2) / scale s2,
                            arg_sy = (frame_top fr2 - offsetY s2) / scale s2,
                            arg_sWidth = frame_width fr2 / scale s2,
                            arg_sHeight = frame_height fr2 / scale s2,
                            arg_dx = 0, arg_dy = 0,
                            arg_dWidth = canvas_width cv,
                            arg_dHeight = canvas_height cv\<rparr>
               in if getContext host cv \<and> drawImage host call
                  then toDataURL host cv call
                         (case format of None \<Rightarrow> ''image/jpeg'' | Some f \<Rightarrow> f)
                         (case quality of None \<Rightarrow> 0.92 | Some q \<Rightarrow> q)
                  else None)))"
proof -
  have general: "fst (getCroppedImage host format quality (Some ow) t)
        = (let cv = \<lparr>canvas_width = Math_round ow,
                      canvas_height = Math_round (ow / aspectRatio (options t))\<rparr>;
               call = \<lparr>arg_image = i,
                        arg_sx = (frame_left r - offsetX t) / scale t,
                        arg_sy = (frame_top r - offsetY t) / scale t,
                        arg_sWidth = frame_width r / scale t,
                        arg_sHeight = frame_height r / scale t,
                        arg_dx = 0, arg_dy = 0,
                        arg_dWidth = Math_round ow,
                        arg_dHeight = Math_round (ow / aspectRatio (options t))\<rparr>
               in if getContext host cv \<and> drawImage host call
                  then toDataURL host cv call
                         (case format of None \<Rightarrow> ''image/jpeg'' | Some f \<Rightarrow> f)
                         (case quality of None \<Rightarrow> 0.92 | Some q \<Rightarrow> q)
                  else None)"
    if "imageLoaded t" and "imageEl t = Some i" and "frameRect t = Some r"
      and "0 \<le> Math_round ow" and "Math_round ow \<le> 2147483647"
      and "0 \<le> Math_round (ow / aspectRatio (options t))"
      and "Math_round (ow / aspectRatio (options t)) \<le> 2147483647" for t i r ow
    using that
    by (simp add: getCroppedImage_def Let_def reflect_unsigned_long_in_range)
  have after_load: "(\<exists>s2 im2 fr2.
          image_onload w h c (snd (loadImage (Some file) s0)) = Inr s2
        \<and> imageEl s2 = Some im2 \<and> frameRect s2 = Some fr2 \<and> 0 < scale s2
        \<and> frame_width fr2 / frame_height fr2 = aspectRatio (options s2)
        \<and> fst (getCroppedImage host format quality (Some (of_int n)) s2)
            = (let cv = \<lparr>canvas_width = n,
                          canvas_height =
                            Math_round (of_int n / (frame_width fr2 / frame_height fr2))\<rparr>;
                   call = \<lparr>arg_image = im2,
                            arg_sx = (frame_left fr2 - offsetX s2) / scale s2,
                            arg_sy = (frame_top fr2 - offsetY s2) / scale s2,
                            arg_sWidth = frame_width fr2 / scale s2,
                            arg_sHeight = frame_height fr2 / scale s2,
                            arg_dx = 0, arg_dy = 0,
                            arg_dWidth = canvas_width cv,
                            arg_dHeight = canvas_height cv\<rparr>
               in if getContext host cv \<and> drawImage host call
                  then toDataURL host cv call
                         (case format of None \<Rightarrow> ''image/jpeg'' | Some f \<Rightarrow> f)
                         (case quality of None \<Rightarrow> 0.92 | Some q \<Rightarrow> q)
                  else None))"
    if h: "mounted s0" "prefix ''image/'' (file_type file)" "0 < clientWidth c"
      "0 < clientHeight c" "0 < aspectRatio (options s0)"
      and n: "0 \<le> n" "n \<le> 2147483647"
        "Math_round (of_int n / aspectRatio (options s0)) \<le> 2147483647"
  proof -
    let ?fr = "cropFrameRect (clientWidth c) (clientHeight c) (aspectRatio (options s0))"
    obtain s2 im2 where s2: "image_onload w h c (snd (loadImage (Some file) s0)) = Inr s2"
        "imageLoaded s2" "imageEl s2 = Some im2" "options s2 = options s0"
        "frameRect s2 = Some ?fr" "0 < scale s2"
      using image_onload_after_loadImage [OF h] by blast
    have ratio: "frame_width ?fr / frame_height ?fr = aspectRatio (options s2)"
      using cropFrameRect_ratio [OF h(3-5)] by (simp add: s2(4))
    have w1: "0 \<le> Math_round (of_int n)" and w2: "Math_round (of_int n) \<le> 2147483647"
      using n(1,2) by (simp_all add: Math_round_of_int)
    have "0 \<le> of_int n / aspectRatio (options s0)"
      using n(1) h(5) by simp
    then have h1: "0 \<le> Math_round (of_int n / aspectRatio (options s2))"
      unfolding s2(4) by (rule Math_round_nonneg)
    have h2: "Math_round (of_int n / aspectRatio (options s2)) \<le> 2147483647"
      unfolding s2(4) by (rule n(3))
    have "fst (getCroppedImage host format quality (Some (of_int n)) s2)
            = (let cv = \<lparr>canvas_width = n,
                          canvas_height =
                            Math_round (of_int n / (frame_width ?fr / frame_height ?fr))\<rparr>;
                   call = \<lparr>arg_image = im2,
                            arg_sx = (frame_left ?fr - offsetX s2) / scale s2,
                            arg_sy = (frame_top ?fr - offsetY s2) / scale s2,
                            arg_sWidth = frame_width ?fr / scale s2,
                            arg_sHeight = frame_height ?fr / scale s2,
                            arg_dx = 0, arg_dy = 0,
                            arg_dWidth = canvas_width cv,
                            arg_dHeight = canvas_height cv\<rparr>
               in if getContext host cv \<and> drawImage host call
                  then toDataURL host cv call
                         (case format of None \<Rightarrow> ''image/jpeg'' | Some f \<Rightarrow> f)
                         (case quality of None \<Rightarrow> 0.92 | Some q \<Rightarrow> q)
                  else None)"
      unfolding general [OF s2(2) s2(3) s2(5) w1 w2 h1 h2] ratio Math_round_of_int
      by (simp add: Let_def)
    with s2 ratio show ?thesis
      by blast
  qed
  from general after_load show ?thesis
    by blast
qed

theorem getCroppedImage_draw_witness:
  "imageLoaded ex_loaded
   \<and> imageEl ex_loaded = Some \<lparr>naturalWidth = 2000, naturalHeight = 1000,
                                 transform = Some (- 220, 40, 0.72)\<rparr>
   \<and> frameRect ex_loaded = Some ex_frame
   \<and> scale ex_loaded \<noteq> 0 \<and> aspectRatio (options ex_loaded) \<noteq> 0
   \<and> Math_round 850 = 850 \<and> Math_round (850 / aspectRatio (options ex_loaded)) = 1100
   \<and> fst (getCroppedImage ex_host None None (Some 850) ex_loaded)
       = toDataURL ex_host \<lparr>canvas_width = 850, canvas_height = 1100\<rparr>
           \<lparr>arg_image = \<lparr>naturalWidth = 2000, naturalHeight = 1000,
                          transform = Some (- 220, 40, 0.72)\<rparr>,
            arg_sx = 6750 / 11, arg_sy = 0, arg_sWidth = 8500 / 11, arg_sHeight = 1000,
            arg_dx = 0, arg_dy = 0, arg_dWidth = 850, arg_dHeight = 1100\<rparr>
           ''image/jpeg'' 0.92
   \<and> fst (getCroppedImage ex_host None None (Some 850) ex_loaded) = Some ''data:image/jpeg''
   \<and> \<not> getContext ex_host \<lparr>canvas_width = 850, canvas_height = 1099\<rparr>
   \<and> \<not> drawImage ex_host
         \<lparr>arg_image = \<lparr>naturalWidth = 2000, naturalHeight = 1000,
                        transform = Some (- 220, 40, 0.72)\<rparr>,
          arg_sx = 0, arg_sy = 0, arg_sWidth = 8500 / 11, arg_sHeight = 1000,
          arg_dx = 0, arg_dy = 0, arg_dWidth = 850, arg_dHeight = 1100\<rparr>
   \<and> mounted ex_fresh \<and> prefix ''image/'' (file_type ex_file)
   \<and> 0 < clientWidth ex_container \<and> 0 < clientHeight ex_container
   \<and> 0 < aspectRatio (options ex_fresh)
   \<and> Math_round (of_int 850 / aspectRatio (options ex_fresh)) = 1100
   \<and> (\<exists>s2 im2 fr2.
          image_onload 2000 1000 ex_container (snd (loadImage (Some ex_file) ex_fresh)) = Inr s2
        \<and> imageEl s2 = Some im2 \<and> frameRect s2 = Some fr2 \<and> 0 < scale s2
        \<and> frame_width fr2 / frame_height fr2 = aspectRatio (options s2)
        \<and> fst (getCroppedImage ex_host None None (Some (of_int 850)) s2)
            = (let cv = \<lparr>canvas_width = 850,
                          canvas_height =
                            Math_round (of_int 850 / (frame_width fr2 / frame_height fr2))\<rparr>;
                   call = \<lparr>arg_image = im2,
                            arg_sx = (frame_left fr2 - offsetX s2) / scale s2,
                            arg_sy = (frame_top fr2 - offsetY s2) / scale s2,
                            arg_sWidth = frame_width fr2 / scale s2,
                            arg_sHeight = frame_height fr2 / scale s2,
                            arg_dx = 0, arg_dy = 0,
                            arg_dWidth = canvas_width cv,
                            arg_dHeight = canvas_height cv\<rparr>
               in if getContext ex_host cv \<and> drawImage ex_host call
                  then toDataURL ex_host cv call
                         (case None of None \<Rightarrow> ''image/jpeg'' | Some f \<Rightarrow> f)
                         (case None of None \<Rightarrow> 0.92 | Some q \<Rightarrow> q)
                  else None))"
proof -
  let ?im = "\<lparr>naturalWidth = 2000, naturalHeight = 1000, transform = Some (- 220, 40, 0.72)\<rparr>"
  have r: "Math_round 850 = 850" "Math_round (850 / aspectRatio (options ex_loaded)) = 1100"
      "Math_round (of_int 850 / aspectRatio (options ex_fresh)) = 1100"
    by (simp_all add: Math_round_def ex_loaded_eq ex_fresh_eq default_options_def)
  have h1: "imageLoaded ex_loaded \<and> imageEl ex_loaded = Some ?im
      \<and> frameRect ex_loaded = Some ex_frame
      \<and> scale ex_loaded \<noteq> 0 \<and> aspectRatio (options ex_loaded) \<noteq> 0"
    by (simp add: ex_loaded_eq ex_frame_def default_options_def)
  have g1: "0 \<le> Math_round 850 \<and> Math_round 850 \<le> 2147483647
      \<and> 0 \<le> Math_round (850 / aspectRatio (options ex_loaded))
      \<and> Math_round (850 / aspectRatio (options ex_loaded)) \<le> 2147483647"
    unfolding r by simp
  have h2: "mounted ex_fresh \<and> prefix ''image/'' (file_type ex_file)
      \<and> 0 < clientWidth ex_container \<and> 0 < clientHeight ex_container
      \<and> 0 < aspectRatio (options ex_fresh)"
    by (simp add: ex_fresh_eq ex_file_def prefix_image_png ex_container_def default_options_def)
  have g2: "(0::int) \<le> 850 \<and> (850::int) \<le> 2147483647
      \<and> Math_round (of_int 850 / aspectRatio (options ex_fresh)) \<le> 2147483647"
    unfolding r by simp
  note inst = getCroppedImage_draw [of ex_loaded ?im ex_frame 850 ex_host None None
      ex_fresh ex_file ex_container 850 2000 1000]
  from inst h1 g1
  have p1: "fst (getCroppedImage ex_host None None (Some 850) ex_loaded)
        = (let cv = \<lparr>canvas_width = Math_round 850,
                      canvas_height = Math_round (850 / aspectRatio (options ex_loaded))\<rparr>;
               call = \<lparr>arg_image = ?im,
                        arg_sx = (frame_left ex_frame - offsetX ex_loaded) / scale ex_loaded,
                        arg_sy = (frame_top ex_frame - offsetY ex_loaded) / scale ex_loaded,
                        arg_sWidth = frame_width ex_frame / scale ex_loaded,
                        arg_sHeight = frame_height ex_frame / scale ex_loaded,
                        arg_dx = 0, arg_dy = 0,
                        arg_dWidth = Math_round 850,
                        arg_dHeight = Math_round (850 / aspectRatio (options ex_loaded))\<rparr>
               in if getContext ex_host cv \<and> drawImage ex_host call
                  then toDataURL ex_host cv call
                         (case None of None \<Rightarrow> ''image/jpeg'' | Some f \<Rightarrow> f)
                         (case None of None \<Rightarrow> 0.92 | Some q \<Rightarrow> q)
                  else None)"
    by blast
  have c1: "fst (getCroppedImage ex_host None None (Some 850) ex_loaded)
       = toDataURL ex_host \<lparr>canvas_width = 850, canvas_height = 1100\<rparr>
           \<lparr>arg_image = ?im,
            arg_sx = 6750 / 11, arg_sy = 0, arg_sWidth = 8500 / 11, arg_sHeight = 1000,
            arg_dx = 0, arg_dy = 0, arg_dWidth = 850, arg_dHeight = 1100\<rparr>
           ''image/jpeg'' 0.92"
    unfolding p1 r
    by (simp add: Let_def ex_host_def ex_loaded_eq ex_frame_def)
  have c2: "fst (getCroppedImage ex_host None None (Some 850) ex_loaded)
       = Some ''data:image/jpeg''"
    unfolding c1 by (simp add: ex_host_def)
  have c3: "\<not> getContext ex_host \<lparr>canvas_width = 850, canvas_height = 1099\<rparr>"
    by (simp add: ex_host_def)
  have c4: "\<not> drawImage ex_host
         \<lparr>arg_image = ?im,
          arg_sx = 0, arg_sy = 0, arg_sWidth = 8500 / 11, arg_sHeight = 1000,
          arg_dx = 0, arg_dy = 0, arg_dWidth = 850, arg_dHeight = 1100\<rparr>"
    by (simp add: ex_host_def)
  from inst h2 g2
  have p2: "(\<exists>s2 im2 fr2.
          image_onload 2000 1000 ex_container (snd (loadImage (Some ex_file) ex_fresh)) = Inr s2
        \<and> imageEl s2 = Some im2 \<and> frameRect s2 = Some fr2 \<and> 0 < scale s2
        \<and> frame_width fr2 / frame_height fr2 = aspectRatio (options s2)
        \<and> fst (getCroppedImage ex_host None None (Some (of_int 850)) s2)
            = (let cv = \<lparr>canvas_width = 850,
                          canvas_height =
                            Math_round (of_int 850 / (frame_width fr2 / frame_height fr2))\<rparr>;
                   call = \<lparr>arg_image = im2,
                            arg_sx = (frame_left fr2 - offsetX s2) / scale s2,
                            arg_sy = (frame_top fr2 - offsetY s2) / scale s2,
                            arg_sWidth = frame_width fr2 / scale s2,
                            arg_sHeight = frame_height fr2 / scale s2,
                            arg_dx = 0, arg_dy = 0,
                            arg_dWidth = canvas_width cv,
                            arg_dHeight = canvas_height cv\<rparr>
               in if getContext ex_host cv \<and> drawImage ex_host call
                  then toDataURL ex_host cv call
                         (case None of None \<Rightarrow> ''image/jpeg'' | Some f \<Rightarrow> f)
                         (case None of None \<Rightarrow> 0.92 | Some q \<Rightarrow> q)
                  else None))"
    by blast
  from h1 h2 r c1 c2 c3 c4 p2 show ?thesis
    by blast
qed

text \<open>
  C5, amended. Without an image loaded or without a cached container rectangle
  \<open>zoomAtPoint\<close> changes nothing. Otherwise the new scale is \<open>scale * factor\<close> clamped,
  \<open>max(minZoom, min(maxZoom, scale * factor))\<close>: a product below \<open>minZoom\<close> gives exactly
  \<open>minZoom\<close> and, when \<open>minZoom \<le> maxZoom\<close>, a product above \<open>maxZoom\<close> gives exactly
  \<open>maxZoom\<close>. Whenever the clamped scale equals the current scale the call changes nothing
  at all. A factor of 1 is such a call when the current scale lies within
  \<open>[minZoom, maxZoom]\<close>.
\<close>

theorem zoomAtPoint_clamp:
  "(\<not> imageLoaded s \<or> containerRect s = None \<longrightarrow> zoomAtPoint factor clientX clientY s = s)
   \<and> (imageLoaded s \<and> containerRect s \<noteq> None \<longrightarrow>
        scale (zoomAtPoint factor clientX clientY s)
          = max (minZoom (options s)) (min (maxZoom (options s)) (scale s * factor))
      \<and> (scale s * factor < minZoom (options s) \<longrightarrow>
           scale (zoomAtPoint factor clientX clientY s) = minZoom (options s))
      \<and> (minZoom (options s) \<le> maxZoom (options s) \<and> maxZoom (options s) < scale s * factor \<longrightarrow>
           scale (zoomAtPoint factor clientX clientY s) = maxZoom (options s)))
   \<and> (max (minZoom (options s)) (min (maxZoom (options s)) (scale s * factor)) = scale s \<longrightarrow>
        zoomAtPoint factor clientX clientY s = s)
   \<and> (minZoom (options s) \<le> scale s \<and> scale s \<le> maxZoom (options s) \<longrightarrow>
        zoomAtPoint 1 clientX clientY s = s)"
  by (auto simp add: zoomAtPoint_def Let_def split: option.splits)

theorem zoomAtPoint_clamp_witness:
  "\<not> imageLoaded ex_fresh \<and> zoomAtPoint 2 510 420 ex_fresh = ex_fresh
   \<and> imageLoaded ex_loaded \<and> containerRect ex_loaded \<noteq> None
   \<and> minZoom (options ex_loaded) \<le> maxZoom (options ex_loaded)
   \<and> maxZoom (options ex_loaded) < scale ex_loaded * 10
   \<and> scale (zoomAtPoint 10 510 420 ex_loaded) = maxZoom (options ex_loaded)
   \<and> scale ex_loaded * (1 / 100) < minZoom (options ex_loaded)
   \<and> scale (zoomAtPoint (1 / 100) 510 420 ex_loaded) = minZoom (options ex_loaded)
   \<and> scale (zoomAtPoint (11 / 10) 510 420 ex_loaded) = scale ex_loaded * (11 / 10)
   \<and> max (minZoom (options ex_max)) (min (maxZoom (options ex_max)) (scale ex_max * 2))
       = scale ex_max
   \<and> zoomAtPoint 2 510 420 ex_max = ex_max
   \<and> minZoom (options ex_loaded) \<le> scale ex_loaded
   \<and> scale ex_loaded \<le> maxZoom (options ex_loaded)
   \<and> zoomAtPoint 1 510 420 ex_loaded = ex_loaded"
proof -
  have a: "\<not> imageLoaded ex_fresh"
    by (simp add: ex_fresh_eq)
  have b: "imageLoaded ex_loaded \<and> containerRect ex_loaded \<noteq> None"
    by (simp add: ex_loaded_eq)
  have c: "minZoom (options ex_loaded) \<le> maxZoom (options ex_loaded)
      \<and> maxZoom (options ex_loaded) < scale ex_loaded * 10"
    by (simp add: ex_loaded_eq default_options_def)
  have d: "scale ex_loaded * (1 / 100) < minZoom (options ex_loaded)"
    by (simp add: ex_loaded_eq default_options_def)
  have e: "max (minZoom (options ex_max)) (min (maxZoom (options ex_max)) (scale ex_max * 2))
       = scale ex_max"
    by (simp add: ex_max_eq default_options_def)
  have f: "minZoom (options ex_loaded) \<le> scale ex_loaded
      \<and> scale ex_loaded \<le> maxZoom (options ex_loaded)"
    by (simp add: ex_loaded_eq default_options_def)
  have g: "max (minZoom (options ex_loaded))
             (min (maxZoom (options ex_loaded)) (scale ex_loaded * (11 / 10)))
           = scale ex_loaded * (11 / 10)"
    by (simp add: ex_loaded_eq default_options_def)
  from zoomAtPoint_clamp [of ex_fresh 2 510 420] a
  have 1: "zoomAtPoint 2 510 420 ex_fresh = ex_fresh"
    by blast
  from zoomAtPoint_clamp [of ex_loaded 10 510 420] b c
  have 2: "scale (zoomAtPoint 10 510 420 ex_loaded) = maxZoom (options ex_loaded)"
    by blast
  from zoomAtPoint_clamp [of ex_loaded "1 / 100" 510 420] b d
  have 3: "scale (zoomAtPoint (1 / 100) 510 420 ex_loaded) = minZoom (options ex_loaded)"
    by blast
  from zoomAtPoint_clamp [of ex_loaded "11 / 10" 510 420] b
  have "scale (zoomAtPoint (11 / 10) 510 420 ex_loaded)
          = max (minZoom (options ex_loaded))
              (min (maxZoom (options ex_loaded)) (scale ex_loaded * (11 / 10)))"
    by blast
  then have 4: "scale (zoomAtPoint (11 / 10) 510 420 ex_loaded) = scale ex_loaded * (11 / 10)"
    unfolding g .
  from zoomAtPoint_clamp [of ex_max 2 510 420] e
  have 5: "zoomAtPoint 2 510 420 ex_max = ex_max"
    by blast
  from zoomAtPoint_clamp [of ex_loaded 1 510 420] f
  have 6: "zoomAtPoint 1 510 420 ex_loaded = ex_loaded"
    by blast
  from a b c d e f 1 2 3 4 5 6 show ?thesis
    by blast
qed

text \<open>
  C5 as stated fails for the factor 1: after loading an image of 20000 by 20000 pixels the
  fit-reset leaves the scale at 0.036, below \<open>minZoom = 0.1\<close>, and \<open>zoomAtPoint\<close> with
  factor 1 then moves the scale to 0.1 and recomputes the offset.
\<close>

theorem zoomAtPoint_factor1_counterexample:
  "imageLoaded ex_big \<and> containerRect ex_big = Some ex_rect
   \<and> scale ex_big = 9 / 250 \<and> scale (zoomAtPoint 1 510 420 ex_big) = 1 / 10
   \<and> offsetX ex_big = 140 \<and> offsetX (zoomAtPoint 1 510 420 ex_big) = - 500
   \<and> offsetY ex_big = 40 \<and> offsetY (zoomAtPoint 1 510 420 ex_big) = - 600
   \<and> zoomAtPoint 1 510 420 ex_big \<noteq> ex_big"
proof -
  have v: "scale ex_big = 9 / 250" "scale (zoomAtPoint 1 510 420 ex_big) = 1 / 10"
    by (simp_all add: zoomAtPoint_def ex_big_eq default_options_def Let_def)
  have "zoomAtPoint 1 510 420 ex_big \<noteq> ex_big"
  proof
    assume "zoomAtPoint 1 510 420 ex_big = ex_big"
    then have "scale (zoomAtPoint 1 510 420 ex_big) = scale ex_big"
      by simp
    then show False
      unfolding v by simp
  qed
  moreover have "imageLoaded ex_big \<and> containerRect ex_big = Some ex_rect
      \<and> offsetX ex_big = 140 \<and> offsetY ex_big = 40"
    by (simp add: ex_big_eq ex_rect_def)
  moreover have "offsetX (zoomAtPoint 1 510 420 ex_big) = - 500
      \<and> offsetY (zoomAtPoint 1 510 420 ex_big) = - 600"
    by (simp add: zoomAtPoint_def ex_big_eq default_options_def Let_def)
  ultimately show ?thesis
    using v by blast
qed

text \<open>
  C6, amended. With an image loaded, a frame defined and the container rectangle cached,
  \<open>zoomIn\<close> is \<open>zoomAtPoint\<close> with factor \<open>1 + zoomStep\<close> and, for \<open>1 + zoomStep\<close> not
  zero, \<open>zoomOut\<close> is \<open>zoomAtPoint\<close> with factor \<open>1 / (1 + zoomStep)\<close>, both anchored at
  the centre of the frame rectangle (in client coordinates: the container's left and top
  plus the frame's left and top plus half its width and height).
\<close>

theorem zoomIn_zoomOut_factor:
  assumes "imageLoaded s" and "frameRect s = Some fr" and "containerRect s = Some cr"
  shows "zoomIn s = Inr (zoomAtPoint (1 + zoomStep (options s))
                     (rect_left cr + frame_left fr + frame_width fr / 2)
                     (rect_top cr + frame_top fr + frame_height fr / 2) s)
     \<and> (1 + zoomStep (options s) \<noteq> 0 \<longrightarrow>
          zoomOut s = Inr (zoomAtPoint (1 / (1 + zoomStep (options s)))
                     (rect_left cr + frame_left fr + frame_width fr / 2)
                     (rect_top cr + frame_top fr + frame_height fr / 2) s))"
  using assms by (simp add: zoomIn_def zoomOut_def Let_def)

theorem zoomIn_zoomOut_factor_witness:
  "imageLoaded ex_loaded \<and> frameRect ex_loaded = Some ex_frame
   \<and> containerRect ex_loaded = Some ex_rect
   \<and> 1 + zoomStep (options ex_loaded) \<noteq> 0
   \<and> zoomIn ex_loaded = Inr (zoomAtPoint (11 / 10) 510 420 ex_loaded)
   \<and> zoomOut ex_loaded = Inr (zoomAtPoint (10 / 11) 510 420 ex_loaded)"
proof -
  have h1: "imageLoaded ex_loaded" and h2: "frameRect ex_loaded = Some ex_frame"
    and h3: "containerRect ex_loaded = Some ex_rect"
    by (simp_all add: ex_loaded_eq ex_frame_def ex_rect_def)
  have h4: "1 + zoomStep (options ex_loaded) \<noteq> 0"
    by (simp add: ex_loaded_eq default_options_def)
  have v: "1 + zoomStep (options ex_loaded) = 11 / 10"
      "1 / (1 + zoomStep (options ex_loaded)) = 10 / 11"
      "rect_left ex_rect + frame_left ex_frame + frame_width ex_frame / 2 = 510"
      "rect_top ex_rect + frame_top ex_frame + frame_height ex_frame / 2 = 420"
    by (simp_all add: ex_loaded_eq default_options_def ex_rect_def ex_frame_def)
  note inst = zoomIn_zoomOut_factor [OF h1 h2 h3]
  from inst have zi: "zoomIn ex_loaded
      = Inr (zoomAtPoint (1 + zoomStep (options ex_loaded))
               (rect_left ex_rect + frame_left ex_frame + frame_width ex_frame / 2)
               (rect_top ex_rect + frame_top ex_frame + frame_height ex_frame / 2) ex_loaded)"
    by blast
  from inst h4 have zo: "zoomOut ex_loaded
      = Inr (zoomAtPoint (1 / (1 + zoomStep (options ex_loaded)))
               (rect_left ex_rect + frame_left ex_frame + frame_width ex_frame / 2)
               (rect_top ex_rect + frame_top ex_frame + frame_height ex_frame / 2) ex_loaded)"
    by blast
  have zi': "zoomIn ex_loaded = Inr (zoomAtPoint (11 / 10) 510 420 ex_loaded)"
    using zi unfolding v .
  have zo': "zoomOut ex_loaded = Inr (zoomAtPoint (10 / 11) 510 420 ex_loaded)"
    using zo unfolding v(2-4) .
  from h1 h2 h3 h4 zi' zo' show ?thesis
    by blast
qed

text \<open>
  C6 as stated fails for \<open>zoomOut\<close>: with \<open>zoomStep = 0.1\<close> and scale 0.72 it gives the scale
  \<open>0.72 / 1.1 = 36/55\<close>, and \<open>zoomAtPoint\<close> with factor \<open>1 - zoomStep\<close> gives
  \<open>0.72 * 0.9 = 81/125\<close>.
\<close>

theorem zoomOut_factor_counterexample:
  "imageLoaded ex_loaded \<and> frameRect ex_loaded = Some ex_frame
   \<and> zoomStep (options ex_loaded) = 1 / 10
   \<and> zoomOut ex_loaded = Inr (zoomAtPoint (10 / 11) 510 420 ex_loaded)
   \<and> scale (zoomAtPoint (10 / 11) 510 420 ex_loaded) = 36 / 55
   \<and> scale (zoomAtPoint (1 - zoomStep (options ex_loaded)) 510 420 ex_loaded) = 81 / 125
   \<and> zoomOut ex_loaded
       \<noteq> Inr (zoomAtPoint (1 - zoomStep (options ex_loaded)) 510 420 ex_loaded)"
proof -
  have a: "imageLoaded ex_loaded \<and> frameRect ex_loaded = Some ex_frame
      \<and> zoomStep (options ex_loaded) = 1 / 10"
    by (simp add: ex_loaded_eq ex_frame_def default_options_def)
  have b: "zoomOut ex_loaded = Inr (zoomAtPoint (10 / 11) 510 420 ex_loaded)"
    by (simp add: zoomOut_def ex_loaded_eq default_options_def Let_def)
  have c: "scale (zoomAtPoint (10 / 11) 510 420 ex_loaded) = 36 / 55"
    by (simp add: zoomAtPoint_def ex_loaded_eq default_options_def Let_def)
  have d: "scale (zoomAtPoint (1 - zoomStep (options ex_loaded)) 510 420 ex_loaded) = 81 / 125"
    by (simp add: zoomAtPoint_def ex_loaded_eq default_options_def Let_def)
  have "zoomOut ex_loaded
       \<noteq> Inr (zoomAtPoint (1 - zoomStep (options ex_loaded)) 510 420 ex_loaded)"
  proof
    assume "zoomOut ex_loaded
       = Inr (zoomAtPoint (1 - zoomStep (options ex_loaded)) 510 420 ex_loaded)"
    then have "scale (zoomAtPoint (10 / 11) 510 420 ex_loaded)
        = scale (zoomAtPoint (1 - zoomStep (options ex_loaded)) 510 420 ex_loaded)"
      unfolding b by simp
    then show False
      unfolding c d by simp
  qed
  with a b c d show ?thesis
    by blast
qed

text \<open>
  C7, amended. On an engine whose container is not null, for a load request whose payload
  is not an image (no file, or a type that does not start with \<open>image/\<close>), \<open>loadImage\<close>
  rejects with the invalid-file error after \<open>clear\<close> has run: the state after the
  rejection is the cleared state (no image, \<open>imageLoaded\<close> false, scale 1, offsets 0, no
  drag session), whatever it was before; the options and the cached container and frame
  rectangles are unchanged.
\<close>

theorem loadImage_reject:
  assumes "mounted s"
    and "case file of None \<Rightarrow> True | Some f \<Rightarrow> \<not> prefix ''image/'' (file_type f)"
  shows "\<exists>s1. clear s = Inr s1
     \<and> loadImage file s = (Some InvalidFileType, s1)
     \<and> imageEl s1 = None \<and> \<not> imageLoaded s1
     \<and> scale s1 = 1 \<and> offsetX s1 = 0 \<and> offsetY s1 = 0
     \<and> dragStart s1 = None
     \<and> options s1 = options s
     \<and> containerRect s1 = containerRect s
     \<and> frameRect s1 = frameRect s
     \<and> mounted s1"
  using assms by (auto simp add: loadImage_def clear_def split: option.splits)

theorem loadImage_reject_witness:
  "mounted ex_loaded
   \<and> (case Some ex_text_file of None \<Rightarrow> True | Some f \<Rightarrow> \<not> prefix ''image/'' (file_type f))
   \<and> imageLoaded ex_loaded \<and> scale ex_loaded = 18 / 25
   \<and> (\<exists>s1. clear ex_loaded = Inr s1
        \<and> loadImage (Some ex_text_file) ex_loaded = (Some InvalidFileType, s1)
        \<and> imageEl s1 = None \<and> \<not> imageLoaded s1
        \<and> scale s1 = 1 \<and> offsetX s1 = 0 \<and> offsetY s1 = 0
        \<and> dragStart s1 = None
        \<and> options s1 = options ex_loaded
        \<and> containerRect s1 = containerRect ex_loaded
        \<and> frameRect s1 = frameRect ex_loaded
        \<and> mounted s1)
   \<and> (\<exists>s1. clear ex_loaded = Inr s1
        \<and> loadImage None ex_loaded = (Some InvalidFileType, s1)
        \<and> imageEl s1 = None \<and> \<not> imageLoaded s1
        \<and> scale s1 = 1 \<and> offsetX s1 = 0 \<and> offsetY s1 = 0
        \<and> dragStart s1 = None
        \<and> options s1 = options ex_loaded
        \<and> containerRect s1 = containerRect ex_loaded
        \<and> frameRect s1 = frameRect ex_loaded
        \<and> mounted s1)"
proof -
  have m: "mounted ex_loaded" and l: "imageLoaded ex_loaded" and k: "scale ex_loaded = 18 / 25"
    by (simp_all add: ex_loaded_eq)
  have h: "case Some ex_text_file of None \<Rightarrow> True
             | Some f \<Rightarrow> \<not> prefix ''image/'' (file_type f)"
    by (simp add: ex_text_file_def)
  have h': "case None :: js_file option of None \<Rightarrow> True
             | Some f \<Rightarrow> \<not> prefix ''image/'' (file_type f)"
    by simp
  from loadImage_reject [OF m h] loadImage_reject [OF m h'] m l k h
  show ?thesis
    by blast
qed

text \<open>
  C7 as stated fails: a rejected load of a text file into a state with an image loaded at
  scale 0.72 and offset (-220, 40) leaves no image loaded, scale 1 and offset (0, 0), and a
  rejected load during a drag drops the drag session.
\<close>

theorem loadImage_reject_counterexample:
  "fst (loadImage (Some ex_text_file) ex_loaded) = Some InvalidFileType
   \<and> imageLoaded ex_loaded \<and> \<not> imageLoaded (snd (loadImage (Some ex_text_file) ex_loaded))
   \<and> scale ex_loaded = 18 / 25 \<and> scale (snd (loadImage (Some ex_text_file) ex_loaded)) = 1
   \<and> offsetX ex_loaded = - 220 \<and> offsetX (snd (loadImage (Some ex_text_file) ex_loaded)) = 0
   \<and> offsetY ex_loaded = 40 \<and> offsetY (snd (loadImage (Some ex_text_file) ex_loaded)) = 0
   \<and> dragStart ex_dragging \<noteq> None
   \<and> dragStart (snd (loadImage None ex_dragging)) = None"
  by (simp add: loadImage_def clear_def ex_text_file_def ex_loaded_eq ex_dragging_eq Let_def)

text \<open>
  C8, amended. With an image loaded, a drag-start event (a mouse-down with the main
  button, or a touch start with exactly one touch) is not ignored while a drag session is
  active: whatever the stored session was, it is replaced by the new pointer position and
  the current offset, and nothing else changes. A mouse move after such a mouse-down moves
  the offset by the distance from the new start.
\<close>

theorem dragStart_replaced:
  assumes "imageLoaded s"
  shows "(m_button e = 0 \<longrightarrow>
            handleMouseDown e s
              = s\<lparr>dragStart := Some \<lparr>drag_x = m_clientX e, drag_y = m_clientY e,
                                      drag_offsetX = offsetX s, drag_offsetY = offsetY s\<rparr>\<rparr>
          \<and> offsetX (handleMouseMove e' (handleMouseDown e s))
              = offsetX s + (m_clientX e' - m_clientX e)
          \<and> offsetY (handleMouseMove e' (handleMouseDown e s))
              = offsetY s + (m_clientY e' - m_clientY e))
     \<and> (touches te = [t] \<longrightarrow>
            handleTouchStart te s
              = s\<lparr>dragStart := Some \<lparr>drag_x = t_clientX t, drag_y = t_clientY t,
                                      drag_offsetX = offsetX s, drag_offsetY = offsetY s\<rparr>\<rparr>)"
  using assms
  by (simp add: handleMouseDown_def handleTouchStart_def handleMouseMove_def Let_def)

theorem dragStart_replaced_witness:
  "imageLoaded ex_dragging
   \<and> dragStart ex_dragging \<noteq> None
   \<and> m_button \<lparr>m_button = 0, m_clientX = 300, m_clientY = 300\<rparr> = 0
   \<and> handleMouseDown \<lparr>m_button = 0, m_clientX = 300, m_clientY = 300\<rparr> ex_dragging
       = ex_dragging\<lparr>dragStart := Some \<lparr>drag_x = 300, drag_y = 300,
                                          drag_offsetX = - 190, drag_offsetY = 80\<rparr>\<rparr>
   \<and> offsetX (handleMouseMove \<lparr>m_button = 0, m_clientX = 310, m_clientY = 295\<rparr>
        (handleMouseDown \<lparr>m_button = 0, m_clientX = 300, m_clientY = 300\<rparr> ex_dragging))
       = - 180
   \<and> offsetY (handleMouseMove \<lparr>m_button = 0, m_clientX = 310, m_clientY = 295\<rparr>
        (handleMouseDown \<lparr>m_button = 0, m_clientX = 300, m_clientY = 300\<rparr> ex_dragging))
       = 75
   \<and> touches \<lparr>touches = [\<lparr>t_clientX = 300, t_clientY = 300\<rparr>]\<rparr>
       = [\<lparr>t_clientX = 300, t_clientY = 300\<rparr>]
   \<and> handleTouchStart \<lparr>touches = [\<lparr>t_clientX = 300, t_clientY = 300\<rparr>]\<rparr> ex_dragging
       = ex_dragging\<lparr>dragStart := Some \<lparr>drag_x = 300, drag_y = 300,
                                          drag_offsetX = - 190, drag_offsetY = 80\<rparr>\<rparr>"
proof -
  let ?e = "\<lparr>m_button = 0, m_clientX = 300, m_clientY = 300\<rparr>"
  let ?e' = "\<lparr>m_button = 0, m_clientX = 310, m_clientY = 295\<rparr>"
  let ?t = "\<lparr>t_clientX = 300, t_clientY = 300\<rparr>"
  let ?te = "\<lparr>touches = [?t]\<rparr>"
  have h: "imageLoaded ex_dragging" and d: "dragStart ex_dragging \<noteq> None"
    by (simp_all add: ex_dragging_eq)
  have o: "offsetX ex_dragging = - 190" "offsetY ex_dragging = 80"
    by (simp_all add: ex_dragging_eq)
  have b: "m_button ?e = 0" and ts: "touches ?te = [?t]"
    by simp_all
  note inst = dragStart_replaced [OF h, of ?e ?e' ?te ?t]
  from inst b have down: "handleMouseDown ?e ex_dragging
      = ex_dragging\<lparr>dragStart := Some \<lparr>drag_x = m_clientX ?e, drag_y = m_clientY ?e,
           drag_offsetX = offsetX ex_dragging, drag_offsetY = offsetY ex_dragging\<rparr>\<rparr>"
    by blast
  from inst b have mx: "offsetX (handleMouseMove ?e' (handleMouseDown ?e ex_dragging))
      = offsetX ex_dragging + (m_clientX ?e' - m_clientX ?e)"
    by blast
  from inst b have my: "offsetY (handleMouseMove ?e' (handleMouseDown ?e ex_dragging))
      = offsetY ex_dragging + (m_clientY ?e' - m_clientY ?e)"
    by blast
  from inst ts have start: "handleTouchStart ?te ex_dragging
      = ex_dragging\<lparr>dragStart := Some \<lparr>drag_x = t_clientX ?t, drag_y = t_clientY ?t,
           drag_offsetX = offsetX ex_dragging, drag_offsetY = offsetY ex_dragging\<rparr>\<rparr>"
    by blast
  have down': "handleMouseDown ?e ex_dragging
      = ex_dragging\<lparr>dragStart := Some \<lparr>drag_x = 300, drag_y = 300,
                                         drag_offsetX = - 190, drag_offsetY = 80\<rparr>\<rparr>"
    unfolding down o by simp
  have start': "handleTouchStart ?te ex_dragging
      = ex_dragging\<lparr>dragStart := Some \<lparr>drag_x = 300, drag_y = 300,
                                         drag_offsetX = - 190, drag_offsetY = 80\<rparr>\<rparr>"
    unfolding start o by simp
  have mx': "offsetX (handleMouseMove ?e' (handleMouseDown ?e ex_dragging)) = - 180"
    unfolding mx o by simp
  have my': "offsetY (handleMouseMove ?e' (handleMouseDown ?e ex_dragging)) = 75"
    unfolding my o by simp
  from h d b ts down' start' mx' my' show ?thesis
    by blast
qed

text \<open>
  C8 as stated fails: during a drag that started at (100, 100) with offset (-220, 40), a
  second mouse-down or single-touch start at (300, 300) replaces the stored session by one
  that starts at (300, 300) with the current offset (-190, 80).
\<close>

theorem dragStart_ignored_counterexample:
  "imageLoaded ex_dragging
   \<and> dragStart ex_dragging
       = Some \<lparr>drag_x = 100, drag_y = 100, drag_offsetX = - 220, drag_offsetY = 40\<rparr>
   \<and> dragStart (handleMouseDown \<lparr>m_button = 0, m_clientX = 300, m_clientY = 300\<rparr> ex_dragging)
       = Some \<lparr>drag_x = 300, drag_y = 300, drag_offsetX = - 190, drag_offsetY = 80\<rparr>
   \<and> dragStart (handleTouchStart \<lparr>touches = [\<lparr>t_clientX = 300, t_clientY = 300\<rparr>]\<rparr> ex_dragging)
       = Some \<lparr>drag_x = 300, drag_y = 300, drag_offsetX = - 190, drag_offsetY = 80\<rparr>
   \<and> dragStart (handleMouseDown \<lparr>m_button = 0, m_clientX = 300, m_clientY = 300\<rparr> ex_dragging)
       \<noteq> dragStart ex_dragging
   \<and> dragStart (handleTouchStart \<lparr>touches = [\<lparr>t_clientX = 300, t_clientY = 300\<rparr>]\<rparr> ex_dragging)
       \<noteq> dragStart ex_dragging"
  by (simp add: handleMouseDown_def handleTouchStart_def ex_dragging_eq)

text \<open>
  C9. In a state with an image loaded (and the container rectangle cached whenever the
  frame is defined), with \<open>1 + zoomStep\<close> not zero, where neither call hits the zoom clamp,
  \<open>zoomIn\<close> followed by \<open>zoomOut\<close> returns and restores the scale and both offsets, and so
  does \<open>zoomOut\<close> followed by \<open>zoomIn\<close>. The first product is \<open>scale * (1 + zoomStep)\<close>,
  respectively \<open>scale / (1 + zoomStep)\<close>; the second product is the scale itself.
\<close>

theorem zoomIn_zoomOut_identity:
  assumes "imageLoaded s" and "frameRect s \<noteq> None \<longrightarrow> containerRect s \<noteq> None"
    and "1 + zoomStep (options s) \<noteq> 0"
    and "minZoom (options s) \<le> scale s" and "scale s \<le> maxZoom (options s)"
  shows "(minZoom (options s) \<le> scale s * (1 + zoomStep (options s))
          \<and> scale s * (1 + zoomStep (options s)) \<le> maxZoom (options s) \<longrightarrow>
          (\<exists>s1 s2. zoomIn s = Inr s1 \<and> zoomOut s1 = Inr s2
             \<and> scale s2 = scale s \<and> offsetX s2 = offsetX s \<and> offsetY s2 = offsetY s))
     \<and> (minZoom (options s) \<le> scale s * (1 / (1 + zoomStep (options s)))
          \<and> scale s * (1 / (1 + zoomStep (options s))) \<le> maxZoom (options s) \<longrightarrow>
          (\<exists>s1 s2. zoomOut s = Inr s1 \<and> zoomIn s1 = Inr s2
             \<and> scale s2 = scale s \<and> offsetX s2 = offsetX s \<and> offsetY s2 = offsetY s))"
proof (cases "frameRect s")
  case None
  then have "zoomIn s = Inr s" and "zoomOut s = Inr s"
    by (simp_all add: zoomIn_def zoomOut_def)
  then show ?thesis
    by simp
next
  case (Some fr)
  then obtain cr where cr: "containerRect s = Some cr"
    using assms(2) by auto
  let ?f = "1 + zoomStep (options s)"
  let ?x = "rect_left cr + frame_left fr + frame_width fr / 2"
  let ?y = "rect_top cr + frame_top fr + frame_height fr / 2"
  have fg: "?f * (1 / ?f) = 1" and gf: "(1 / ?f) * ?f = 1"
    using assms(3) by simp_all
  have zi: "\<And>t. imageLoaded t \<Longrightarrow> frameRect t = Some fr \<Longrightarrow> containerRect t = Some cr
        \<Longrightarrow> options t = options s \<Longrightarrow> zoomIn t = Inr (zoomAtPoint ?f ?x ?y t)"
    by (simp add: zoomIn_def Let_def)
  have zo: "\<And>t. imageLoaded t \<Longrightarrow> frameRect t = Some fr \<Longrightarrow> containerRect t = Some cr
        \<Longrightarrow> options t = options s \<Longrightarrow> zoomOut t = Inr (zoomAtPoint (1 / ?f) ?x ?y t)"
    by (simp add: zoomOut_def Let_def)
  have in_out: "\<exists>s1 s2. zoomIn s = Inr s1 \<and> zoomOut s1 = Inr s2
             \<and> scale s2 = scale s \<and> offsetX s2 = offsetX s \<and> offsetY s2 = offsetY s"
    if "minZoom (options s) \<le> scale s * ?f" and "scale s * ?f \<le> maxZoom (options s)"
  proof -
    let ?s1 = "zoomAtPoint ?f ?x ?y s"
    have "zoomIn s = Inr ?s1"
      using assms(1) Some cr by (simp add: zi)
    moreover have "zoomOut ?s1 = Inr (zoomAtPoint (1 / ?f) ?x ?y ?s1)"
      using assms(1) Some cr by (simp add: zo)
    ultimately show ?thesis
      using zoomAtPoint_inverse [OF assms(1) cr fg that assms(4) assms(5), of ?x ?y]
      by blast
  qed
  have out_in: "\<exists>s1 s2. zoomOut s = Inr s1 \<and> zoomIn s1 = Inr s2
             \<and> scale s2 = scale s \<and> offsetX s2 = offsetX s \<and> offsetY s2 = offsetY s"
    if "minZoom (options s) \<le> scale s * (1 / ?f)" and "scale s * (1 / ?f) \<le> maxZoom (options s)"
  proof -
    let ?s1 = "zoomAtPoint (1 / ?f) ?x ?y s"
    have "zoomOut s = Inr ?s1"
      using assms(1) Some cr by (simp add: zo)
    moreover have "zoomIn ?s1 = Inr (zoomAtPoint ?f ?x ?y ?s1)"
      using assms(1) Some cr by (simp add: zi)
    ultimately show ?thesis
      using zoomAtPoint_inverse [OF assms(1) cr gf that assms(4) assms(5), of ?x ?y]
      by blast
  qed
  from in_out out_in show ?thesis
    by blast
qed

theorem zoomIn_zoomOut_identity_witness:
  "imageLoaded ex_loaded
   \<and> frameRect ex_loaded = Some ex_frame
   \<and> containerRect ex_loaded = Some ex_rect
   \<and> 1 + zoomStep (options ex_loaded) \<noteq> 0
   \<and> minZoom (options ex_loaded) \<le> scale ex_loaded
   \<and> scale ex_loaded \<le> maxZoom (options ex_loaded)
   \<and> minZoom (options ex_loaded) \<le> scale ex_loaded * (1 + zoomStep (options ex_loaded))
   \<and> scale ex_loaded * (1 + zoomStep (options ex_loaded)) \<le> maxZoom (options ex_loaded)
   \<and> (\<exists>s1 s2. zoomIn ex_loaded = Inr s1 \<and> zoomOut s1 = Inr s2
         \<and> scale s2 = scale ex_loaded \<and> offsetX s2 = offsetX ex_loaded
         \<and> offsetY s2 = offsetY ex_loaded)
   \<and> minZoom (options ex_loaded) \<le> scale ex_loaded * (1 / (1 + zoomStep (options ex_loaded)))
   \<and> scale ex_loaded * (1 / (1 + zoomStep (options ex_loaded))) \<le> maxZoom (options ex_loaded)
   \<and> (\<exists>s1 s2. zoomOut ex_loaded = Inr s1 \<and> zoomIn s1 = Inr s2
         \<and> scale s2 = scale ex_loaded \<and> offsetX s2 = offsetX ex_loaded
         \<and> offsetY s2 = offsetY ex_loaded)"
proof -
  have h1: "imageLoaded ex_loaded"
    and h2: "frameRect ex_loaded \<noteq> None \<longrightarrow> containerRect ex_loaded \<noteq> None"
    and h2': "frameRect ex_loaded = Some ex_frame"
    and h2'': "containerRect ex_loaded = Some ex_rect"
    by (simp_all add: ex_loaded_eq ex_frame_def ex_rect_def)
  have h3: "1 + zoomStep (options ex_loaded) \<noteq> 0"
    and h4: "minZoom (options ex_loaded) \<le> scale ex_loaded"
    and h5: "scale ex_loaded \<le> maxZoom (options ex_loaded)"
    by (simp_all add: ex_loaded_eq default_options_def)
  have r1: "minZoom (options ex_loaded) \<le> scale ex_loaded * (1 + zoomStep (options ex_loaded))
      \<and> scale ex_loaded * (1 + zoomStep (options ex_loaded)) \<le> maxZoom (options ex_loaded)"
    by (simp add: ex_loaded_eq default_options_def)
  have r2: "minZoom (options ex_loaded)
        \<le> scale ex_loaded * (1 / (1 + zoomStep (options ex_loaded)))
      \<and> scale ex_loaded * (1 / (1 + zoomStep (options ex_loaded)))
        \<le> maxZoom (options ex_loaded)"
    by (simp add: ex_loaded_eq default_options_def)
  from zoomIn_zoomOut_identity [OF h1 h2 h3 h4 h5] h1 h2' h2'' h3 h4 h5 r1 r2
  show ?thesis
    by blast
qed

text \<open>
  C10. \<open>getCroppedImage\<close> never changes the state of the engine: for every canvas
  behaviour, every state and every combination of arguments, whether it returns a data
  URL or null, the state after the call is the state before it.
\<close>

theorem getCroppedImage_pure:
  "snd (getCroppedImage host format quality outputWidth s) = s"
  by (simp add: getCroppedImage_def Let_def split: option.splits)

theorem getCroppedImage_pure_witness:
  "snd (getCroppedImage ex_host None None None ex_loaded) = ex_loaded
   \<and> fst (getCroppedImage ex_host None None None ex_loaded) = Some ''data:image/jpeg''
   \<and> snd (getCroppedImage ex_host None None None ex_fresh) = ex_fresh
   \<and> fst (getCroppedImage ex_host None None None ex_fresh) = None"
proof -
  have "fst (getCroppedImage ex_host None None None ex_loaded) = Some ''data:image/jpeg''"
    by (simp add: getCroppedImage_def ex_host_def ex_loaded_eq default_options_def
        Math_round_def reflect_unsigned_long_def Let_def)
  moreover have "fst (getCroppedImage ex_host None None None ex_fresh) = None"
    by (simp add: getCroppedImage_def ex_fresh_eq Let_def)
  ultimately show ?thesis
    using getCroppedImage_pure [of ex_host None None None ex_loaded]
      getCroppedImage_pure [of ex_host None None None ex_fresh]
    by simp
qed

end
